theory Spec2Isabelle
  imports Main "HOL-Library.Multiset"
begin

section \<open>Pruning old file versions of a Backblaze B2 bucket\<close>

text \<open>
  A shallow embedding of \<^verbatim>\<open>backblaze_b2_delete_all_old_versions.py\<close>. The script lists
  every file version of a bucket with the \<^verbatim>\<open>b2\<close> command line tool, groups the versions by
  file name, and deletes all but the newest version of each file, or only says what it
  would delete when run with \<^verbatim>\<open>--dry-run\<close>.

  What lies outside the script is a parameter of the model:
  \<^item> \<open>tool\<close>: the external \<^verbatim>\<open>b2\<close> program. Given a command line and the state of the world
    it answers with a completed process (return code, standard output, standard error)
    and a new state of the world. The type of the world is arbitrary. The program is taken
    to be installed: \<^verbatim>\<open>subprocess.run\<close> always gets a completed process.
  \<^item> \<open>loads\<close>: \<^verbatim>\<open>json.loads\<close> of the Python library, with \<open>Inl msg\<close> for a
    \<^verbatim>\<open>JSONDecodeError\<close> whose text is \<open>msg\<close>.

  Text is a \<open>string\<close> whose characters are the code points 0 to 255.
\<close>

subsection \<open>Values\<close>

text \<open>
  One record of the listing. The script reads exactly three keys of it:
  \<^verbatim>\<open>file['fileName']\<close>, \<^verbatim>\<open>x['uploadTimestamp']\<close> and \<^verbatim>\<open>version['fileId']\<close>.
\<close>

record version =
  fileName :: string
  fileId :: string
  uploadTimestamp :: int

text \<open>
  What \<^verbatim>\<open>json.loads\<close> returns, as far as the script tells values apart: \<open>JRec\<close> is a
  \<^verbatim>\<open>dict\<close> that is a version record (a file name and a file id that are strings, an upload
  timestamp that is an integer; other keys are never read), \<open>JList\<close> a \<^verbatim>\<open>list\<close>, the
  others \<^verbatim>\<open>None\<close>, a \<^verbatim>\<open>bool\<close>, an \<^verbatim>\<open>int\<close> and a \<^verbatim>\<open>str\<close>.

  Two kinds of JSON values are not values of this type: numbers with a fraction or an
  exponent, and objects that lack one of the three keys or hold a value of another type
  under it, on which the script raises \<^verbatim>\<open>KeyError\<close> or \<^verbatim>\<open>TypeError\<close> when it reads
  the key.
\<close>

datatype json =
    JNull
  | JBool bool
  | JInt int
  | JStr string
  | JList "json list"
  | JRec version

text \<open>The truth value of \<^verbatim>\<open>not file_versions\<close> is the negation of this one.\<close>

fun truthy :: "json \<Rightarrow> bool" where
  "truthy JNull = False"
| "truthy (JBool b) = b"
| "truthy (JInt i) = (i \<noteq> 0)"
| "truthy (JStr s) = (s \<noteq> [])"
| "truthy (JList xs) = (xs \<noteq> [])"
| "truthy (JRec v) = True"

text \<open>The text of \<^verbatim>\<open>type(file_versions)\<close> inside an f-string.\<close>

definition class_repr :: "string \<Rightarrow> string" where
  "class_repr name = ''<class '' @ [CHR 0x27] @ name @ [CHR 0x27] @ ''>''"

fun type_repr :: "json \<Rightarrow> string" where
  "type_repr JNull = class_repr ''NoneType''"
| "type_repr (JBool b) = class_repr ''bool''"
| "type_repr (JInt i) = class_repr ''int''"
| "type_repr (JStr s) = class_repr ''str''"
| "type_repr (JList xs) = class_repr ''list''"
| "type_repr (JRec v) = class_repr ''dict''"

subsection \<open>Python's string functions\<close>

text \<open>\<^verbatim>\<open>sep.join(xs)\<close>.\<close>

fun join :: "string \<Rightarrow> string list \<Rightarrow> string" where
  "join sep [] = []"
| "join sep [x] = x"
| "join sep (x # y # ys) = x @ sep @ join sep (y # ys)"

text \<open>\<^verbatim>\<open>str(n)\<close> of a natural number: its decimal digits.\<close>

fun str_nat :: "nat \<Rightarrow> string" where
  "str_nat n =
     (if n < 10 then [char_of (48 + n)]
      else str_nat (n div 10) @ [char_of (48 + n mod 10)])"

declare str_nat.simps [simp del]

text \<open>
  \<^verbatim>\<open>str.splitlines()\<close>: the line boundaries among the code points below 256 are line feed,
  carriage return (with a following line feed, one boundary), vertical tab, form feed, the
  file, group and record separators and next line (\<open>0x85\<close>). A last line that is empty is
  not a line.
\<close>

definition is_linebreak :: "char \<Rightarrow> bool" where
  "is_linebreak c \<longleftrightarrow>
     c \<in> set [CHR 0x0A, CHR 0x0B, CHR 0x0C, CHR 0x0D, CHR 0x1C, CHR 0x1D, CHR 0x1E, CHR 0x85]"

fun splitlines_from :: "string \<Rightarrow> string \<Rightarrow> string list" where
  "splitlines_from cur [] = (if cur = [] then [] else [cur])"
| "splitlines_from cur (c # cs) =
     (if c = CHR 0x0D then
        (case cs of
           [] \<Rightarrow> [cur]
         | d # ds \<Rightarrow>
             if d = CHR 0x0A then cur # splitlines_from [] ds
             else cur # splitlines_from [] cs)
      else if is_linebreak c then cur # splitlines_from [] cs
      else splitlines_from (cur @ [c]) cs)"

definition splitlines :: "string \<Rightarrow> string list" where
  "splitlines s = splitlines_from [] s"

text \<open>
  \<^verbatim>\<open>line.strip()\<close> is a non-empty string, hence true, when the line has a character that
  is not white space.
\<close>

definition is_space :: "char \<Rightarrow> bool" where
  "is_space c \<longleftrightarrow>
     c \<in> set [CHR 0x09, CHR 0x0A, CHR 0x0B, CHR 0x0C, CHR 0x0D, CHR 0x1C, CHR 0x1D,
              CHR 0x1E, CHR 0x1F, CHR 0x20, CHR 0x85, CHR 0xA0]"

definition strip_nonempty :: "string \<Rightarrow> bool" where
  "strip_nonempty line \<longleftrightarrow> (\<exists>c \<in> set line. \<not> is_space c)"

text \<open>
  \<^verbatim>\<open>str.lower()\<close>: the capital letters below code point 256 are A to Z and the letters from
  \<open>0xC0\<close> to \<open>0xDE\<close> without the multiplication sign \<open>0xD7\<close>; each is 32 below its
  small letter.
\<close>

definition lower_char :: "char \<Rightarrow> char" where
  "lower_char c =
     (let n = (of_char c :: nat) in
      if (65 \<le> n \<and> n \<le> 90) \<or> (192 \<le> n \<and> n \<le> 222 \<and> n \<noteq> 215) then char_of (n + 32) else c)"

definition lower :: "string \<Rightarrow> string" where
  "lower s = map lower_char s"

subsection \<open>The process and its surroundings\<close>

record proc =
  returncode :: int
  stdout :: string
  stderr :: string

type_synonym 'w tool = "string list \<Rightarrow> 'w \<Rightarrow> proc \<times> 'w"

text \<open>
  The state of a run: the world the tool acts on, the command lines run so far (oldest
  first), the arguments of every \<^verbatim>\<open>print\<close> so far, and the lines still to be read from
  standard input.
\<close>

record 'w state =
  world :: 'w
  calls :: "string list list"
  out :: "string list"
  stdin :: "string list"

text \<open>
  How a function stops other than by returning: \<^verbatim>\<open>sys.exit(n)\<close>, or an exception that
  nothing catches.
\<close>

datatype exn = TypeError | EOFError

datatype stop = SysExit int | Uncaught exn

type_synonym ('a, 'w) result = "(stop + 'a) \<times> 'w state"

text \<open>
  The exit code of the process: 0 when the script runs to its end, the argument of
  \<^verbatim>\<open>sys.exit\<close>, 1 after an exception.
\<close>

fun exit_code :: "stop + 'a \<Rightarrow> int" where
  "exit_code (Inr x) = 0"
| "exit_code (Inl (SysExit n)) = n"
| "exit_code (Inl (Uncaught e)) = 1"

definition print :: "string \<Rightarrow> 'w state \<Rightarrow> 'w state" where
  "print s st = st\<lparr>out := out st @ [s]\<rparr>"

subsection \<open>What the script prints\<close>

definition error_msgs :: "string list \<Rightarrow> proc \<Rightarrow> string list" where
  "error_msgs command result =
     [''Error executing command: '' @ join '' '' command, ''Error output: '' @ stderr result]"

definition decode_error_msg :: "string \<Rightarrow> string" where
  "decode_error_msg e = ''Error decoding JSON: '' @ e"

definition attempting_msg :: string where
  "attempting_msg = ''Attempting to parse output as a single JSON object...''"

definition failed_parse_msg :: string where
  "failed_parse_msg =
     ''Failed to parse output as JSON. Please check the B2 CLI version and output format.''"

definition no_files_msg :: "string \<Rightarrow> string" where
  "no_files_msg bucket_name = ''No files found in bucket: '' @ bucket_name"

definition unexpected_type_msg :: "json \<Rightarrow> string" where
  "unexpected_type_msg file_versions =
     ''Unexpected data type for file_versions: '' @ type_repr file_versions"

definition would_delete_msg :: "string \<Rightarrow> version \<Rightarrow> string" where
  "would_delete_msg filename version =
     ''Would delete: '' @ filename @ '' (Version: '' @ fileId version @ '')''"

definition deleting_msg :: "string \<Rightarrow> version \<Rightarrow> string" where
  "deleting_msg filename version =
     ''Deleting: '' @ filename @ '' (Version: '' @ fileId version @ '')''"

text \<open>The summary starts with a line feed: a blank line comes before it.\<close>

definition summary_msg :: "bool \<Rightarrow> nat \<Rightarrow> string" where
  "summary_msg dry_run deleted_count =
     (if dry_run
      then CHR 0x0A # ''Total versions that would be deleted: '' @ str_nat deleted_count
      else CHR 0x0A # ''Total versions deleted: '' @ str_nat deleted_count)"

definition usage_msg :: string where
  "usage_msg = ''Usage: python3 delete.py <bucket_name> [--dry-run]''"

definition dry_run_msg :: string where
  "dry_run_msg = ''Running in dry run mode. No files will be actually deleted.''"

definition warning_msg :: string where
  "warning_msg = ''WARNING: This will actually delete file versions. Are you sure? (y/n)''"

definition cancelled_msg :: string where
  "cancelled_msg = ''Operation cancelled.''"

subsection \<open>\<^verbatim>\<open>run_command\<close>\<close>

text \<open>
  \<^verbatim>\<open>subprocess.run(command, capture_output=True, text=True, check=True)\<close> raises
  \<^verbatim>\<open>CalledProcessError\<close> when the return code is not 0; the handler prints two lines and
  exits with 1.
\<close>

definition run_command :: "'w tool \<Rightarrow> string list \<Rightarrow> 'w state \<Rightarrow> (string, 'w) result" where
  "run_command tool command st =
     (let (result, w) = tool command (world st);
          st1 = st\<lparr>world := w, calls := calls st @ [command]\<rparr>
      in if returncode result = 0 then (Inr (stdout result), st1)
         else (Inl (SysExit 1), st1\<lparr>out := out st1 @ error_msgs command result\<rparr>))"

subsection \<open>\<^verbatim>\<open>get_file_versions\<close>\<close>

definition ls_command :: "string \<Rightarrow> string list" where
  "ls_command bucket_name =
     [''b2'', ''ls'', ''--json'', ''--recursive'', ''--versions'', ''b2://'' @ bucket_name]"

text \<open>
  \<^verbatim>\<open>[json.loads(line) for line in output.splitlines() if line.strip()]\<close>: the first line
  that does not parse raises.
\<close>

fun loads_lines :: "(string \<Rightarrow> string + json) \<Rightarrow> string list \<Rightarrow> string + json list" where
  "loads_lines loads [] = Inr []"
| "loads_lines loads (line # lines) =
     (if strip_nonempty line then
        (case loads line of
           Inl e \<Rightarrow> Inl e
         | Inr v \<Rightarrow> (case loads_lines loads lines of Inl e \<Rightarrow> Inl e | Inr vs \<Rightarrow> Inr (v # vs)))
      else loads_lines loads lines)"

text \<open>
  The value returned is the list of the parsed lines or, when a line does not parse,
  whatever the whole output parses to.
\<close>

definition get_file_versions ::
  "(string \<Rightarrow> string + json) \<Rightarrow> 'w tool \<Rightarrow> string \<Rightarrow> 'w state \<Rightarrow> (json, 'w) result" where
  "get_file_versions loads tool bucket_name st =
     (case run_command tool (ls_command bucket_name) st of
        (Inl e, st1) \<Rightarrow> (Inl e, st1)
      | (Inr output, st1) \<Rightarrow>
          (case loads_lines loads (splitlines output) of
             Inr vs \<Rightarrow> (Inr (JList vs), st1)
           | Inl e \<Rightarrow>
               (let st2 = print attempting_msg (print (decode_error_msg e) st1)
                in case loads output of
                     Inr v \<Rightarrow> (Inr v, st2)
                   | Inl e' \<Rightarrow> (Inl (SysExit 1), print failed_parse_msg st2))))"

subsection \<open>\<^verbatim>\<open>delete_old_versions\<close>\<close>

text \<open>
  \<^verbatim>\<open>files\<close> is a dictionary from file names to lists of versions. A Python dictionary
  keeps its keys in the order of their first insertion, and the loop over
  \<^verbatim>\<open>files.items()\<close> follows that order: an association list with one entry per key.
\<close>

type_synonym files = "(string \<times> version list) list"

text \<open>\<^verbatim>\<open>files[name].append(file)\<close> on a \<^verbatim>\<open>defaultdict(list)\<close>.\<close>

fun append_to :: "string \<Rightarrow> version \<Rightarrow> files \<Rightarrow> files" where
  "append_to name file [] = [(name, [file])]"
| "append_to name file ((k, versions) # rest) =
     (if k = name then (k, versions @ [file]) # rest
      else (k, versions) # append_to name file rest)"

text \<open>
  The loop \<^verbatim>\<open>for file in file_versions: files[file['fileName']].append(file)\<close>. An element
  that is not a dictionary cannot be indexed with a string: \<^verbatim>\<open>TypeError\<close>.
\<close>

fun organize :: "json list \<Rightarrow> files \<Rightarrow> exn + files" where
  "organize [] files = Inr files"
| "organize (JRec file # rest) files = organize rest (append_to (fileName file) file files)"
| "organize (other # rest) files = Inl TypeError"

text \<open>
  \<^verbatim>\<open>sorted(versions, key=..., reverse=True)\<close>: the list is reversed, sorted by ascending
  key with a stable sort, and reversed again.
\<close>

definition sorted_reverse :: "('a \<Rightarrow> int) \<Rightarrow> 'a list \<Rightarrow> 'a list" where
  "sorted_reverse key xs = rev (sort_key key (rev xs))"

definition delete_command :: "string \<Rightarrow> version \<Rightarrow> string list" where
  "delete_command filename version = [''b2'', ''delete-file-version'', filename, fileId version]"

text \<open>The loop \<^verbatim>\<open>for version in sorted_versions[1:]\<close>, with the running count.\<close>

fun delete_versions ::
  "'w tool \<Rightarrow> bool \<Rightarrow> string \<Rightarrow> version list \<Rightarrow> nat \<Rightarrow> 'w state \<Rightarrow> (nat, 'w) result" where
  "delete_versions tool dry_run filename [] deleted_count st = (Inr deleted_count, st)"
| "delete_versions tool dry_run filename (version # rest) deleted_count st =
     (if dry_run then
        delete_versions tool dry_run filename rest (deleted_count + 1)
          (print (would_delete_msg filename version) st)
      else
        (case run_command tool (delete_command filename version)
                (print (deleting_msg filename version) st) of
           (Inl e, st1) \<Rightarrow> (Inl e, st1)
         | (Inr output, st1) \<Rightarrow>
             delete_versions tool dry_run filename rest (deleted_count + 1) st1))"

text \<open>The loop \<^verbatim>\<open>for filename, versions in files.items()\<close>.\<close>

fun delete_files ::
  "'w tool \<Rightarrow> bool \<Rightarrow> files \<Rightarrow> nat \<Rightarrow> 'w state \<Rightarrow> (nat, 'w) result" where
  "delete_files tool dry_run [] deleted_count st = (Inr deleted_count, st)"
| "delete_files tool dry_run ((filename, versions) # rest) deleted_count st =
     (case delete_versions tool dry_run filename
             (drop 1 (sorted_reverse uploadTimestamp versions)) deleted_count st of
        (Inl e, st1) \<Rightarrow> (Inl e, st1)
      | (Inr n, st1) \<Rightarrow> delete_files tool dry_run rest n st1)"

text \<open>The part of the function after \<^verbatim>\<open>files\<close> is built: both loops and the summary.\<close>

definition delete_and_summarize ::
  "'w tool \<Rightarrow> bool \<Rightarrow> files \<Rightarrow> 'w state \<Rightarrow> (unit, 'w) result" where
  "delete_and_summarize tool dry_run files st =
     (case delete_files tool dry_run files 0 st of
        (Inl e, st1) \<Rightarrow> (Inl e, st1)
      | (Inr deleted_count, st1) \<Rightarrow> (Inr (), print (summary_msg dry_run deleted_count) st1))"

text \<open>The function from the listing on: what it does with the value of \<^verbatim>\<open>file_versions\<close>.\<close>

definition handle_versions ::
  "'w tool \<Rightarrow> string \<Rightarrow> bool \<Rightarrow> json \<Rightarrow> 'w state \<Rightarrow> (unit, 'w) result" where
  "handle_versions tool bucket_name dry_run file_versions st =
     (if \<not> truthy file_versions then (Inr (), print (no_files_msg bucket_name) st)
      else
        (case file_versions of
           JList xs \<Rightarrow>
             (case organize xs [] of
                Inl e \<Rightarrow> (Inl (Uncaught e), st)
              | Inr files \<Rightarrow> delete_and_summarize tool dry_run files st)
         | JRec file \<Rightarrow> delete_and_summarize tool dry_run [(fileName file, [file])] st
         | other \<Rightarrow> (Inr (), print (unexpected_type_msg file_versions) st)))"

definition delete_old_versions ::
  "(string \<Rightarrow> string + json) \<Rightarrow> 'w tool \<Rightarrow> string \<Rightarrow> bool \<Rightarrow> 'w state \<Rightarrow> (unit, 'w) result" where
  "delete_old_versions loads tool bucket_name dry_run st =
     (case get_file_versions loads tool bucket_name st of
        (Inl e, st1) \<Rightarrow> (Inl e, st1)
      | (Inr file_versions, st1) \<Rightarrow> handle_versions tool bucket_name dry_run file_versions st1)"

subsection \<open>The entry point\<close>

text \<open>\<^verbatim>\<open>input()\<close>: the next line of standard input, \<^verbatim>\<open>EOFError\<close> when there is none.\<close>

definition input :: "'w state \<Rightarrow> (string, 'w) result" where
  "input st =
     (case stdin st of
        [] \<Rightarrow> (Inl (Uncaught EOFError), st)
      | line # rest \<Rightarrow> (Inr line, st\<lparr>stdin := rest\<rparr>))"

text \<open>The steps of live mode: the warning, the confirmation, the run.\<close>

definition confirm_and_delete ::
  "(string \<Rightarrow> string + json) \<Rightarrow> 'w tool \<Rightarrow> string \<Rightarrow> 'w state \<Rightarrow> (unit, 'w) result" where
  "confirm_and_delete loads tool bucket_name st =
     (case input (print warning_msg st) of
        (Inl e, st1) \<Rightarrow> (Inl e, st1)
      | (Inr line, st1) \<Rightarrow>
          if lower line \<noteq> ''y'' then (Inl (SysExit 0), print cancelled_msg st1)
          else delete_old_versions loads tool bucket_name False st1)"

definition main ::
  "(string \<Rightarrow> string + json) \<Rightarrow> 'w tool \<Rightarrow> string list \<Rightarrow> 'w state \<Rightarrow> (unit, 'w) result" where
  "main loads tool argv st =
     (if length argv < 2 \<or> length argv > 3 then (Inl (SysExit 1), print usage_msg st)
      else
        (let bucket_name = argv ! 1;
             dry_run = (''--dry-run'' \<in> set argv)
         in if dry_run then delete_old_versions loads tool bucket_name dry_run (print dry_run_msg st)
            else confirm_and_delete loads tool bucket_name st))"

section \<open>Notions for the properties\<close>

text \<open>The dictionary \<^verbatim>\<open>files\<close> that the first loop builds from a list of version records.\<close>

definition organized :: "version list \<Rightarrow> files" where
  "organized vs = foldl (\<lambda>files file. append_to (fileName file) file files) [] vs"

text \<open>
  The deletion candidates, in the order in which the two loops reach them: for each file
  name, the sorted versions without the first. The retained versions are those first
  ones.
\<close>

definition candidates :: "files \<Rightarrow> (string \<times> version) list" where
  "candidates files =
     concat (map (\<lambda>(filename, versions).
                    map (Pair filename) (drop 1 (sorted_reverse uploadTimestamp versions))) files)"

definition retained :: "files \<Rightarrow> version list" where
  "retained files =
     concat (map (\<lambda>(filename, versions). take 1 (sorted_reverse uploadTimestamp versions)) files)"

text \<open>
  The newest version of a file name in a listing, as the specification words it: among the
  records of that name, the one with the greatest upload timestamp, the first of them in
  input order when several have it.
\<close>

definition newest :: "version list \<Rightarrow> string \<Rightarrow> version option" where
  "newest vs name =
     find (\<lambda>v. fileName v = name \<and>
               (\<forall>u \<in> set vs. fileName u = name \<longrightarrow> uploadTimestamp u \<le> uploadTimestamp v)) vs"

text \<open>
  The answers of the tool to a sequence of command lines run one after the other from a
  state of the world, and the state of the world after them.
\<close>

fun responses :: "'w tool \<Rightarrow> string list list \<Rightarrow> 'w \<Rightarrow> proc list" where
  "responses tool [] w = []"
| "responses tool (command # rest) w =
     fst (tool command w) # responses tool rest (snd (tool command w))"

fun world_after :: "'w tool \<Rightarrow> string list list \<Rightarrow> 'w \<Rightarrow> 'w" where
  "world_after tool [] w = w"
| "world_after tool (command # rest) w = world_after tool rest (snd (tool command w))"

text \<open>The two loops as one loop over the candidates.\<close>

fun delete_all ::
  "'w tool \<Rightarrow> bool \<Rightarrow> (string \<times> version) list \<Rightarrow> nat \<Rightarrow> 'w state \<Rightarrow> (nat, 'w) result" where
  "delete_all tool dry_run [] deleted_count st = (Inr deleted_count, st)"
| "delete_all tool dry_run ((filename, version) # rest) deleted_count st =
     (case delete_versions tool dry_run filename [version] deleted_count st of
        (Inl e, st1) \<Rightarrow> (Inl e, st1)
      | (Inr n, st1) \<Rightarrow> delete_all tool dry_run rest n st1)"

subsection \<open>Concrete surroundings\<close>

text \<open>
  A finite part of \<^verbatim>\<open>json.loads\<close>: the texts of the table parse as the table says, any
  other text is not JSON.
\<close>

definition loads_table :: "(string \<times> (string + json)) list \<Rightarrow> string \<Rightarrow> string + json" where
  "loads_table table s =
     (case map_of table s of
        Some r \<Rightarrow> r
      | None \<Rightarrow> Inl ''Expecting value: line 1 column 1 (char 0)'')"

text \<open>
  A bucket tool: the world is the list of the file ids deleted so far. It answers a
  listing with the given text, and a deletion with success, or with a failure when the
  file id is among the failing ones.
\<close>

definition b2_of :: "string \<Rightarrow> string list \<Rightarrow> string list tool" where
  "b2_of listing failing command w =
     (if take 2 command = [''b2'', ''ls''] then
        (\<lparr>returncode = 0, stdout = listing, stderr = []\<rparr>, w)
      else if last command \<in> set failing then
        (\<lparr>returncode = 1, stdout = [], stderr = ''ERROR: file version not found''\<rparr>, w)
      else (\<lparr>returncode = 0, stdout = [], stderr = []\<rparr>, w @ [last command]))"

definition start :: "string list \<Rightarrow> string list state" where
  "start lines = \<lparr>world = [], calls = [], out = [], stdin = lines\<rparr>"

text \<open>
  A listing with one record per line, and the part of \<^verbatim>\<open>json.loads\<close> that parses the
  lines of such a listing.
\<close>

definition json_line :: "version \<Rightarrow> string" where
  \<open>json_line v =
     ''{"fileName": "'' @ fileName v @ ''", "fileId": "'' @ fileId v @
     ''", "uploadTimestamp": '' @ str_nat (nat (uploadTimestamp v)) @ ''}''\<close>

definition listing_of :: "version list \<Rightarrow> string" where
  "listing_of vs = concat (map (\<lambda>v. json_line v @ [CHR 0x0A]) vs)"

definition loads_of :: "version list \<Rightarrow> string \<Rightarrow> string + json" where
  "loads_of vs = loads_table (map (\<lambda>v. (json_line v, Inr (JRec v))) vs)"

text \<open>Three versions of one file, uploaded at 100, 300 and 200.\<close>

definition v100 :: version where
  "v100 = \<lparr>fileName = ''a.txt'', fileId = ''id100'', uploadTimestamp = 100\<rparr>"

definition v300 :: version where
  "v300 = \<lparr>fileName = ''a.txt'', fileId = ''id300'', uploadTimestamp = 300\<rparr>"

definition v200 :: version where
  "v200 = \<lparr>fileName = ''a.txt'', fileId = ''id200'', uploadTimestamp = 200\<rparr>"

definition listing_a :: string where
  "listing_a = listing_of [v100, v300, v200]"

definition loads_a :: "string \<Rightarrow> string + json" where
  "loads_a = loads_of [v100, v300, v200]"

text \<open>Six versions of one file, uploaded at 1 to 6.\<close>

definition six :: "version list" where
  "six = map (\<lambda>n. \<lparr>fileName = ''a.txt'', fileId = ''id'' @ str_nat n, uploadTimestamp = int n\<rparr>)
           [1, 2, 3, 4, 5, 6]"

text \<open>Two versions of a second file with the same upload timestamp.\<close>

definition b1 :: version where
  "b1 = \<lparr>fileName = ''b.txt'', fileId = ''idb1'', uploadTimestamp = 50\<rparr>"

definition b2 :: version where
  "b2 = \<lparr>fileName = ''b.txt'', fileId = ''idb2'', uploadTimestamp = 50\<rparr>"

text \<open>The version record with the given file name, file id and upload timestamp.\<close>

definition ver :: "string \<Rightarrow> string \<Rightarrow> int \<Rightarrow> version" where
  "ver name ident t = \<lparr>fileName = name, fileId = ident, uploadTimestamp = t\<rparr>"

text \<open>A value that is neither a list nor a dictionary.\<close>

fun is_scalar :: "json \<Rightarrow> bool" where
  "is_scalar (JList xs) = False"
| "is_scalar (JRec v) = False"
| "is_scalar other = True"

text \<open>
  A property of \<^verbatim>\<open>json.loads\<close>. The scalars that count as false are \<^verbatim>\<open>null\<close>,
  \<^verbatim>\<open>false\<close>, \<^verbatim>\<open>0\<close> and the empty string. The text of each is one token without a
  line boundary inside, and JSON allows only blanks, tabs, line feeds and carriage
  returns around it. So when a whole text parses to such a value, the text has one line
  that is not blank, that line parses to the same value, and the parsing line by line
  succeeds.
\<close>

definition false_scalars_on_one_line :: "(string \<Rightarrow> string + json) \<Rightarrow> bool" where
  "false_scalars_on_one_line loads \<longleftrightarrow>
     (\<forall>s v. loads s = Inr v \<and> is_scalar v \<and> \<not> truthy v \<longrightarrow>
            loads_lines loads (splitlines s) = Inr [v])"

text \<open>
  A listing that is one object printed over several lines: its first line, an opening
  brace, is not JSON, the whole is.
\<close>

definition listing_obj :: string where
  \<open>listing_obj =
     ''{'' @ [CHR 0x0A] @
     ''    "fileName": "a.txt",'' @ [CHR 0x0A] @
     ''    "fileId": "id100",'' @ [CHR 0x0A] @
     ''    "uploadTimestamp": 100'' @ [CHR 0x0A] @
     ''}'' @ [CHR 0x0A]\<close>

definition loads_obj :: "string \<Rightarrow> string + json" where
  "loads_obj = loads_table
     [(''{'', Inl ''Expecting property name enclosed in double quotes: line 1 column 2 (char 1)''),
      (listing_obj, Inr (JRec v100))]"

text \<open>
  A listing that is one string with the character next line (\<open>0x85\<close>) inside, which is a
  line boundary for \<^verbatim>\<open>splitlines\<close> and an ordinary character for JSON.
\<close>

definition listing_str :: string where
  \<open>listing_str = ''"a'' @ [CHR 0x85] @ ''b"''\<close>

definition loads_str :: "string \<Rightarrow> string + json" where
  \<open>loads_str = loads_table
     [(''"a'', Inl ''Unterminated string starting at: line 1 column 1 (char 0)''),
      (listing_str, Inr (JStr (''a'' @ [CHR 0x85] @ ''b'')))]\<close>

text \<open>A listing that is the empty array on one line.\<close>

definition loads_empty_array :: "string \<Rightarrow> string + json" where
  "loads_empty_array = loads_table [(''[]'', Inr (JList []))]"

section \<open>Lemmas\<close>

subsection \<open>Sorting\<close>

lemma mset_sorted_reverse: "mset (sorted_reverse f xs) = mset xs"
  by (simp add: sorted_reverse_def)

lemma set_sorted_reverse: "set (sorted_reverse f xs) = set xs"
  by (simp add: sorted_reverse_def)

lemma length_sorted_reverse: "length (sorted_reverse f xs) = length xs"
  by (simp add: sorted_reverse_def)

lemma sorted_reverse_stable:
  "filter (\<lambda>y. f y = k) (sorted_reverse f xs) = filter (\<lambda>y. f y = k) xs"
  by (simp add: sorted_reverse_def rev_filter [symmetric] sort_key_stable)

lemma sorted_reverse_desc: "sorted_wrt (\<lambda>a b. f a \<ge> f b) (sorted_reverse f xs)"
  using sorted_sort_key [of f "rev xs"]
  by (simp add: sorted_reverse_def sorted_wrt_rev sorted_map)

lemma find_filter_hd: "filter P xs = r # rest \<Longrightarrow> find P xs = Some r"
  by (induction xs) (auto split: if_splits)

lemma find_filter: "find P (filter Q xs) = find (\<lambda>x. Q x \<and> P x) xs"
  by (induction xs) auto

text \<open>
  The first element of the sorted list has the greatest key and is, in the input, the
  first element with that key.
\<close>

lemma sorted_reverse_Cons:
  assumes "sorted_reverse f xs = r # cs"
  shows "r \<in> set xs" and "\<forall>u \<in> set xs. f u \<le> f r"
    and "find (\<lambda>v. \<forall>u \<in> set xs. f u \<le> f v) xs = Some r"
proof -
  have s: "set xs = set (r # cs)"
    using set_sorted_reverse [of f xs] assms by simp
  show r: "r \<in> set xs"
    using s by simp
  have d: "sorted_wrt (\<lambda>a b. f a \<ge> f b) (r # cs)"
    using sorted_reverse_desc [of f xs] assms by simp
  show m: "\<forall>u \<in> set xs. f u \<le> f r"
    using d s by auto
  have "filter (\<lambda>y. f y = f r) xs = filter (\<lambda>y. f y = f r) (r # cs)"
    using sorted_reverse_stable [of f "f r" xs] assms by simp
  then have "filter (\<lambda>y. f y = f r) xs = r # filter (\<lambda>y. f y = f r) cs"
    by simp
  then have "find (\<lambda>v. f v = f r) xs = Some r"
    by (rule find_filter_hd)
  moreover have "find (\<lambda>v. \<forall>u \<in> set xs. f u \<le> f v) xs = find (\<lambda>v. f v = f r) xs"
  proof (rule find_cong [OF refl])
    fix x assume "x \<in> set xs"
    then show "(\<forall>u \<in> set xs. f u \<le> f x) = (f x = f r)"
      using m r by (auto intro: antisym)
  qed
  ultimately show "find (\<lambda>v. \<forall>u \<in> set xs. f u \<le> f v) xs = Some r"
    by simp
qed

subsection \<open>Grouping\<close>

lemma organize_records: "organize (map JRec vs) files =
    Inr (foldl (\<lambda>files file. append_to (fileName file) file files) files vs)"
  by (induction vs arbitrary: files) auto

lemma organize_organized: "organize (map JRec vs) [] = Inr (organized vs)"
  by (simp add: organize_records organized_def)

lemma map_fst_append_to:
  "map fst (append_to k v fs) = (if k \<in> set (map fst fs) then map fst fs else map fst fs @ [k])"
  by (induction fs) (auto simp: rev_image_eqI)

lemma distinct_append_to: "distinct (map fst fs) \<Longrightarrow> distinct (map fst (append_to k v fs))"
  by (simp add: map_fst_append_to)

lemma map_of_append_to:
  "map_of (append_to k v fs) k' =
     (if k' = k then Some ((case map_of fs k of None \<Rightarrow> [] | Some g \<Rightarrow> g) @ [v])
      else map_of fs k')"
  by (induction fs) auto

lemma mset_concat_append_to:
  "mset (concat (map snd (append_to k v fs))) = mset (concat (map snd fs)) + {#v#}"
  by (induction fs) auto

lemma organized_Nil: "organized [] = []"
  by (simp add: organized_def)

lemma organized_snoc: "organized (vs @ [v]) = append_to (fileName v) v (organized vs)"
  by (simp add: organized_def)

lemma distinct_organized: "distinct (map fst (organized vs))"
  by (induction vs rule: rev_induct) (simp_all add: organized_Nil organized_snoc distinct_append_to)

lemma mset_organized: "mset (concat (map snd (organized vs))) = mset vs"
  by (induction vs rule: rev_induct) (simp_all add: organized_Nil organized_snoc mset_concat_append_to)

lemma map_of_organized:
  "map_of (organized vs) k =
     (if k \<in> fileName ` set vs then Some (filter (\<lambda>v. fileName v = k) vs) else None)"
proof (induction vs rule: rev_induct)
  case Nil
  then show ?case by (simp add: organized_Nil)
next
  case (snoc v vs)
  have e: "fileName v \<notin> fileName ` set vs \<Longrightarrow> filter (\<lambda>u. fileName u = fileName v) vs = []"
    by (metis (mono_tags, lifting) filter_False image_eqI)
  from snoc e show ?case
    by (auto simp: organized_snoc map_of_append_to)
qed

subsection \<open>Selection\<close>

lemma organized_group:
  assumes "(k, g) \<in> set (organized vs)"
  shows "g = filter (\<lambda>v. fileName v = k) vs" and "g \<noteq> []"
proof -
  have m: "map_of (organized vs) k = Some g"
    using assms distinct_organized [of vs] by simp
  then have i: "k \<in> fileName ` set vs" and g: "g = filter (\<lambda>v. fileName v = k) vs"
    by (auto simp: map_of_organized split: if_splits)
  show "g = filter (\<lambda>v. fileName v = k) vs" by (rule g)
  from i obtain v where "v \<in> set vs" "fileName v = k" by auto
  then have "v \<in> set g" by (simp add: g)
  then show "g \<noteq> []" by auto
qed

lemma set_fst_organized: "set (map fst (organized vs)) = fileName ` set vs"
proof -
  have "k \<notin> fst ` set (organized vs) \<longleftrightarrow> k \<notin> fileName ` set vs" for k
  proof -
    have "k \<notin> fst ` set (organized vs) \<longleftrightarrow> map_of (organized vs) k = None"
      by (rule map_of_eq_None_iff [symmetric])
    also have "\<dots> \<longleftrightarrow> k \<notin> fileName ` set vs"
      by (simp add: map_of_organized)
    finally show ?thesis .
  qed
  then show ?thesis by auto
qed

lemma length_organized: "length (organized vs) = card (fileName ` set vs)"
  using distinct_card [OF distinct_organized [of vs]] set_fst_organized [of vs] by simp

lemma mset_candidates_retained:
  "mset (map snd (candidates files)) + mset (retained files) = mset (concat (map snd files))"
proof (induction files)
  case Nil
  then show ?case by (simp add: candidates_def retained_def)
next
  case (Cons a files)
  obtain k g where a: "a = (k, g)" by (cases a)
  let ?s = "sorted_reverse uploadTimestamp g"
  have "mset (drop 1 ?s) + mset (take 1 ?s) = mset ?s"
    by (metis add.commute append_take_drop_id mset_append)
  then have h: "mset (drop 1 ?s) + mset (take 1 ?s) = mset g"
    by (simp only: mset_sorted_reverse)
  have c: "mset (map snd (candidates (a # files))) =
             mset (drop 1 ?s) + mset (map snd (candidates files))"
    by (simp add: candidates_def a comp_def)
  have r: "mset (retained (a # files)) = mset (take 1 ?s) + mset (retained files)"
    by (simp add: retained_def a)
  have "mset (map snd (candidates (a # files))) + mset (retained (a # files)) =
          (mset (drop 1 ?s) + mset (take 1 ?s)) +
          (mset (map snd (candidates files)) + mset (retained files))"
    by (simp only: c r ac_simps)
  also have "\<dots> = mset g + mset (concat (map snd files))"
    by (simp only: h Cons.IH)
  also have "\<dots> = mset (concat (map snd (a # files)))"
    by (simp add: a)
  finally show ?case .
qed

lemma length_candidates:
  "\<forall>(k, g) \<in> set files. g \<noteq> [] \<Longrightarrow>
   length (candidates files) + length files = length (concat (map snd files))"
proof (induction files)
  case Nil
  then show ?case by (simp add: candidates_def)
next
  case (Cons a files)
  obtain k g where a: "a = (k, g)" by (cases a)
  have "g \<noteq> []" using Cons.prems by (simp add: a)
  then obtain x xs where g: "g = x # xs" by (cases g) auto
  then have "length g = Suc (length xs)" by simp
  moreover have "candidates (a # files) =
      map (Pair k) (drop 1 (sorted_reverse uploadTimestamp g)) @ candidates files"
    by (simp add: candidates_def a)
  ultimately show ?case
    using Cons.IH Cons.prems by (simp add: a length_sorted_reverse)
qed

lemma newest_group:
  assumes "sorted_reverse uploadTimestamp (filter (\<lambda>v. fileName v = k) vs) = r # cs"
  shows "newest vs k = Some r"
proof -
  let ?g = "filter (\<lambda>v. fileName v = k) vs"
  have "newest vs k =
          find (\<lambda>x. fileName x = k \<and> (\<forall>u \<in> set ?g. uploadTimestamp u \<le> uploadTimestamp x)) vs"
    unfolding newest_def by (rule find_cong) auto
  also have "\<dots> = find (\<lambda>v. \<forall>u \<in> set ?g. uploadTimestamp u \<le> uploadTimestamp v) ?g"
    by (rule find_filter [symmetric])
  also have "\<dots> = Some r"
    by (rule sorted_reverse_Cons(3) [OF assms])
  finally show ?thesis .
qed

lemma retained_newest:
  "\<forall>(k, g) \<in> set files. g = filter (\<lambda>v. fileName v = k) vs \<and> g \<noteq> [] \<Longrightarrow>
   map Some (retained files) = map (newest vs) (map fst files)"
proof (induction files)
  case Nil
  then show ?case by (simp add: retained_def)
next
  case (Cons a files)
  obtain k g where a: "a = (k, g)" by (cases a)
  have g: "g = filter (\<lambda>v. fileName v = k) vs" and ne: "g \<noteq> []"
    using Cons.prems by (auto simp: a)
  have "length (sorted_reverse uploadTimestamp g) \<noteq> 0"
    using ne by (simp add: length_sorted_reverse)
  then obtain r cs where s: "sorted_reverse uploadTimestamp g = r # cs"
    by (cases "sorted_reverse uploadTimestamp g") auto
  have n: "newest vs k = Some r"
    using s newest_group [of k vs r cs] by (simp add: g)
  have "retained (a # files) = r # retained files"
    by (simp add: retained_def a s)
  then show ?case
    using Cons n by (simp add: a)
qed

lemma organized_groups:
  "\<forall>(k, g) \<in> set (organized vs). g = filter (\<lambda>v. fileName v = k) vs \<and> g \<noteq> []"
proof (rule ballI)
  fix x assume x: "x \<in> set (organized vs)"
  obtain k g where kg: "x = (k, g)"
    by (cases x)
  from x kg have m: "(k, g) \<in> set (organized vs)"
    by simp
  from organized_group(1) [OF m] organized_group(2) [OF m]
  show "case x of (k, g) \<Rightarrow> g = filter (\<lambda>v. fileName v = k) vs \<and> g \<noteq> []"
    by (simp add: kg)
qed

lemma organized_nonempty: "\<forall>(k, g) \<in> set (organized vs). g \<noteq> []"
proof (rule ballI)
  fix x assume x: "x \<in> set (organized vs)"
  obtain k g where kg: "x = (k, g)"
    by (cases x)
  from x kg have m: "(k, g) \<in> set (organized vs)"
    by simp
  from organized_group(2) [OF m]
  show "case x of (k, g) \<Rightarrow> g \<noteq> []"
    by (simp add: kg)
qed

lemma length_candidates_organized:
  "length (candidates (organized vs)) = length vs - card (fileName ` set vs)"
proof -
  have "size (mset (concat (map snd (organized vs)))) = size (mset vs)"
    by (simp only: mset_organized)
  then have "length (concat (map snd (organized vs))) = length vs"
    by (simp only: size_mset)
  then have "length (candidates (organized vs)) + length (organized vs) = length vs"
    using length_candidates [OF organized_nonempty, of vs] by simp
  then show ?thesis
    by (simp add: length_organized [symmetric])
qed

lemma mset_candidates_retained_organized:
  "mset (map snd (candidates (organized vs))) + mset (retained (organized vs)) = mset vs"
  by (simp only: mset_candidates_retained mset_organized)

lemma retained_newest_organized:
  "map Some (retained (organized vs)) = map (newest vs) (map fst (organized vs))"
  using retained_newest [OF organized_groups] .

subsection \<open>The loops\<close>

lemma run_command_ok:
  "returncode (fst (tool c (world st))) = 0 \<Longrightarrow>
   run_command tool c st =
     (Inr (stdout (fst (tool c (world st)))),
      st\<lparr>world := snd (tool c (world st)), calls := calls st @ [c]\<rparr>)"
  by (simp add: run_command_def Let_def split_beta)

lemma run_command_fail:
  "returncode (fst (tool c (world st))) \<noteq> 0 \<Longrightarrow>
   run_command tool c st =
     (Inl (SysExit 1),
      st\<lparr>world := snd (tool c (world st)), calls := calls st @ [c],
         out := out st @ error_msgs c (fst (tool c (world st)))\<rparr>)"
  by (simp add: run_command_def Let_def split_beta)

lemma delete_versions_flat:
  "delete_versions tool dry k vs n st = delete_all tool dry (map (Pair k) vs) n st"
  by (induction vs arbitrary: n st) (auto split: prod.splits sum.splits)

lemma delete_all_append:
  "delete_all tool dry (xs @ ys) n st =
     (case delete_all tool dry xs n st of
        (Inl e, st1) \<Rightarrow> (Inl e, st1)
      | (Inr m, st1) \<Rightarrow> delete_all tool dry ys m st1)"
  by (induction xs arbitrary: n st) (auto split: prod.splits sum.splits)

lemma delete_files_flat:
  "delete_files tool dry files n st = delete_all tool dry (candidates files) n st"
  by (induction files arbitrary: n st)
     (auto simp: candidates_def delete_versions_flat delete_all_append
           split: prod.splits sum.splits)

lemma delete_all_dry:
  "delete_all tool True cs n st =
     (Inr (n + length cs), st\<lparr>out := out st @ map (\<lambda>(k, v). would_delete_msg k v) cs\<rparr>)"
  by (induction cs arbitrary: n st) (auto simp: print_def)

lemma delete_all_live_ok:
  "\<forall>p \<in> set (responses tool (map (\<lambda>(k, v). delete_command k v) cs) (world st)).
      returncode p = 0 \<Longrightarrow>
   delete_all tool False cs n st =
     (Inr (n + length cs),
      st\<lparr>world := world_after tool (map (\<lambda>(k, v). delete_command k v) cs) (world st),
         calls := calls st @ map (\<lambda>(k, v). delete_command k v) cs,
         out := out st @ map (\<lambda>(k, v). deleting_msg k v) cs\<rparr>)"
proof (induction cs arbitrary: n st)
  case Nil
  then show ?case by simp
next
  case (Cons c cs)
  obtain k v where c: "c = (k, v)"
    by (cases c)
  let ?st1 = "(print (deleting_msg k v) st)
                \<lparr>world := snd (tool (delete_command k v) (world st)),
                 calls := calls st @ [delete_command k v]\<rparr>"
  have ok: "returncode (fst (tool (delete_command k v) (world (print (deleting_msg k v) st)))) = 0"
    using Cons.prems by (simp add: c print_def)
  have rest: "\<forall>p \<in> set (responses tool (map (\<lambda>(k, v). delete_command k v) cs) (world ?st1)).
                 returncode p = 0"
    using Cons.prems by (simp add: c)
  show ?case
    using Cons.IH [OF rest, of "Suc n"] ok
      run_command_ok [of tool "delete_command k v" "print (deleting_msg k v) st"]
    by (simp add: c print_def)
qed

lemma delete_all_live_fail:
  assumes "\<forall>p \<in> set (responses tool (map (\<lambda>(k, v). delete_command k v) pre) (world st)).
             returncode p = 0"
      and "w = world_after tool (map (\<lambda>(k, v). delete_command k v) pre) (world st)"
      and "returncode (fst (tool (delete_command k v) w)) \<noteq> 0"
  shows "delete_all tool False (pre @ (k, v) # post) n st =
     (Inl (SysExit 1),
      st\<lparr>world := snd (tool (delete_command k v) w),
         calls := calls st @ map (\<lambda>(k, v). delete_command k v) pre @ [delete_command k v],
         out := out st @ map (\<lambda>(k, v). deleting_msg k v) pre @ [deleting_msg k v]
                  @ error_msgs (delete_command k v) (fst (tool (delete_command k v) w))\<rparr>)"
proof -
  let ?st1 = "st\<lparr>world := w,
         calls := calls st @ map (\<lambda>(k, v). delete_command k v) pre,
         out := out st @ map (\<lambda>(k, v). deleting_msg k v) pre\<rparr>"
  have f: "returncode (fst (tool (delete_command k v) (world (print (deleting_msg k v) ?st1)))) \<noteq> 0"
    using assms(3) by (simp add: print_def)
  show ?thesis
    using delete_all_live_ok [OF assms(1), of n] f
      run_command_fail [of tool "delete_command k v" "print (deleting_msg k v) ?st1"]
    by (simp add: delete_all_append assms(2) print_def)
qed

subsection \<open>Lower case\<close>

lemma of_char_lower_char:
  "(of_char (lower_char c) :: nat) =
     (let n = of_char c in
      if (65 \<le> n \<and> n \<le> 90) \<or> (192 \<le> n \<and> n \<le> 222 \<and> n \<noteq> 215) then n + 32 else n)"
  by (auto simp: lower_char_def Let_def)

lemma lower_char_y: "lower_char c = CHR ''y'' \<longleftrightarrow> c = CHR ''y'' \<or> c = CHR ''Y''"
proof -
  have "lower_char c = CHR ''y'' \<longleftrightarrow> (of_char (lower_char c) :: nat) = of_char (CHR ''y'')"
    by (simp only: of_char_eq_iff)
  also have "\<dots> \<longleftrightarrow> (of_char c :: nat) = 121 \<or> (of_char c :: nat) = 89"
    by (auto simp: of_char_lower_char Let_def)
  also have "\<dots> \<longleftrightarrow> (of_char c :: nat) = of_char (CHR ''y'') \<or> (of_char c :: nat) = of_char (CHR ''Y'')"
    by simp
  also have "\<dots> \<longleftrightarrow> c = CHR ''y'' \<or> c = CHR ''Y''"
    by (simp only: of_char_eq_iff)
  finally show ?thesis .
qed

lemma lower_eq_y: "lower line = ''y'' \<longleftrightarrow> line = ''y'' \<or> line = ''Y''"
  by (cases line) (auto simp: lower_def lower_char_y)

subsection \<open>From the entry point to the loops\<close>

lemma run_command_calls:
  "run_command tool c st = (r, st1) \<Longrightarrow> calls st1 = calls st @ [c]"
  by (auto simp: run_command_def Let_def split_beta split: if_splits)

lemma get_file_versions_calls:
  "get_file_versions loads tool b st = (r, st1) \<Longrightarrow> calls st1 = calls st @ [ls_command b]"
  by (auto simp: get_file_versions_def Let_def print_def
           split: prod.splits sum.splits dest: run_command_calls)

lemma get_file_versions_lines:
  "run_command tool (ls_command b) st = (Inr output, st1) \<Longrightarrow>
   loads_lines loads (splitlines output) = Inr vs \<Longrightarrow>
   get_file_versions loads tool b st = (Inr (JList vs), st1)"
  by (simp add: get_file_versions_def)

lemma get_file_versions_fallback:
  "run_command tool (ls_command b) st = (Inr output, st1) \<Longrightarrow>
   loads_lines loads (splitlines output) = Inl e \<Longrightarrow>
   loads output = Inr v \<Longrightarrow>
   get_file_versions loads tool b st =
     (Inr v, st1\<lparr>out := out st1 @ [decode_error_msg e, attempting_msg]\<rparr>)"
  by (simp add: get_file_versions_def print_def)

lemma delete_old_versions_listing:
  "get_file_versions loads tool b st = (Inr v, st1) \<Longrightarrow>
   delete_old_versions loads tool b dry st = handle_versions tool b dry v st1"
  by (simp add: delete_old_versions_def)

lemma handle_versions_records:
  "vs \<noteq> [] \<Longrightarrow>
   handle_versions tool b dry (JList (map JRec vs)) st =
     delete_and_summarize tool dry (organized vs) st"
  by (simp add: handle_versions_def organize_organized)

lemma delete_and_summarize_dry:
  "delete_and_summarize tool True files st =
     (Inr (), st\<lparr>out := out st @ map (\<lambda>(k, v). would_delete_msg k v) (candidates files)
                            @ [summary_msg True (length (candidates files))]\<rparr>)"
  by (simp add: delete_and_summarize_def delete_files_flat delete_all_dry print_def)

lemma delete_and_summarize_live_ok:
  "\<forall>p \<in> set (responses tool (map (\<lambda>(k, v). delete_command k v) (candidates files)) (world st)).
      returncode p = 0 \<Longrightarrow>
   delete_and_summarize tool False files st =
     (Inr (),
      st\<lparr>world := world_after tool (map (\<lambda>(k, v). delete_command k v) (candidates files)) (world st),
         calls := calls st @ map (\<lambda>(k, v). delete_command k v) (candidates files),
         out := out st @ map (\<lambda>(k, v). deleting_msg k v) (candidates files)
                  @ [summary_msg False (length (candidates files))]\<rparr>)"
  by (simp add: delete_and_summarize_def delete_files_flat delete_all_live_ok print_def)

lemma delete_and_summarize_live_fail:
  assumes "candidates files = pre @ (k, v) # post"
      and "\<forall>p \<in> set (responses tool (map (\<lambda>(k, v). delete_command k v) pre) (world st)).
             returncode p = 0"
      and "w = world_after tool (map (\<lambda>(k, v). delete_command k v) pre) (world st)"
      and "returncode (fst (tool (delete_command k v) w)) \<noteq> 0"
  shows "delete_and_summarize tool False files st =
     (Inl (SysExit 1),
      st\<lparr>world := snd (tool (delete_command k v) w),
         calls := calls st @ map (\<lambda>(k, v). delete_command k v) pre @ [delete_command k v],
         out := out st @ map (\<lambda>(k, v). deleting_msg k v) pre @ [deleting_msg k v]
                  @ error_msgs (delete_command k v) (fst (tool (delete_command k v) w))\<rparr>)"
  using delete_all_live_fail [OF assms(2) assms(3) assms(4), of post 0]
  by (simp add: delete_and_summarize_def delete_files_flat assms(1))

lemma main_usage:
  "length argv < 2 \<or> 3 < length argv \<Longrightarrow>
   main loads tool argv st = (Inl (SysExit 1), print usage_msg st)"
  by (simp add: main_def)

lemma main_dry_run:
  "2 \<le> length argv \<Longrightarrow> length argv \<le> 3 \<Longrightarrow> ''--dry-run'' \<in> set argv \<Longrightarrow>
   main loads tool argv st = delete_old_versions loads tool (argv ! 1) True (print dry_run_msg st)"
  by (simp add: main_def)

lemma main_live:
  "2 \<le> length argv \<Longrightarrow> length argv \<le> 3 \<Longrightarrow> ''--dry-run'' \<notin> set argv \<Longrightarrow>
   main loads tool argv st = confirm_and_delete loads tool (argv ! 1) st"
  by (simp add: main_def)

lemma confirm_and_delete_line:
  "stdin st = line # rest \<Longrightarrow>
   confirm_and_delete loads tool b st =
     (if line = ''y'' \<or> line = ''Y''
      then delete_old_versions loads tool b False (st\<lparr>out := out st @ [warning_msg], stdin := rest\<rparr>)
      else (Inl (SysExit 0), st\<lparr>out := out st @ [warning_msg, cancelled_msg], stdin := rest\<rparr>))"
  by (simp add: confirm_and_delete_def input_def print_def lower_eq_y)

subsection \<open>One file with versions uploaded at 100, 300 and 200\<close>

lemma str_nat_0: "str_nat 0 = ''0''"
  by code_simp

lemma str_nat_2: "str_nat 2 = ''2''"
  by code_simp

lemma summary_2:
  "summary_msg True 2 = CHR 0x0A # ''Total versions that would be deleted: 2''"
  "summary_msg False 2 = CHR 0x0A # ''Total versions deleted: 2''"
  by (simp_all add: summary_msg_def str_nat_2)

lemma scenario_organized:
  "organized [ver f i 100, ver f j 300, ver f k 200] =
     [(f, [ver f i 100, ver f j 300, ver f k 200])]"
  by (simp add: organized_def ver_def)

lemma scenario_organize:
  "organize [JRec (ver f i 100), JRec (ver f j 300), JRec (ver f k 200)] [] =
     Inr [(f, [ver f i 100, ver f j 300, ver f k 200])]"
  using organize_organized [of "[ver f i 100, ver f j 300, ver f k 200]"]
  by (simp add: scenario_organized)

lemma scenario_candidates:
  "candidates [(f, [ver f i 100, ver f j 300, ver f k 200])] =
     [(f, ver f k 200), (f, ver f i 100)]"
  by (simp add: candidates_def sorted_reverse_def ver_def)

lemma scenario_count: "length (candidates [(f, [ver f i 100, ver f j 300, ver f k 200])]) = 2"
  by (simp add: scenario_candidates)

lemma scenario_retained: "retained [(f, [ver f i 100, ver f j 300, ver f k 200])] = [ver f j 300]"
  by (simp add: retained_def sorted_reverse_def ver_def)

lemma scenario_handle:
  "handle_versions tool bucket dry
     (JList [JRec (ver f i 100), JRec (ver f j 300), JRec (ver f k 200)]) st =
   delete_and_summarize tool dry [(f, [ver f i 100, ver f j 300, ver f k 200])] st"
  using handle_versions_records [of "[ver f i 100, ver f j 300, ver f k 200]" tool bucket dry st]
  by (simp add: scenario_organized)

lemma scenario_dry:
  "delete_and_summarize tool True [(f, [ver f i 100, ver f j 300, ver f k 200])] st =
     (Inr (), st\<lparr>out := out st @
        [would_delete_msg f (ver f k 200), would_delete_msg f (ver f i 100),
         summary_msg True 2]\<rparr>)"
  unfolding delete_and_summarize_dry scenario_count by (simp add: scenario_candidates)

lemma scenario_live:
  "\<forall>p \<in> set (responses tool [delete_command f (ver f k 200), delete_command f (ver f i 100)]
              (world st)). returncode p = 0 \<Longrightarrow>
   delete_and_summarize tool False [(f, [ver f i 100, ver f j 300, ver f k 200])] st =
     (Inr (),
      st\<lparr>world := world_after tool
                    [delete_command f (ver f k 200), delete_command f (ver f i 100)] (world st),
         calls := calls st @ [delete_command f (ver f k 200), delete_command f (ver f i 100)],
         out := out st @
           [deleting_msg f (ver f k 200), deleting_msg f (ver f i 100),
            summary_msg False 2]\<rparr>)"
  using delete_and_summarize_live_ok [of tool "[(f, [ver f i 100, ver f j 300, ver f k 200])]" st]
  unfolding scenario_count by (simp add: scenario_candidates)

subsection \<open>Scalars\<close>

text \<open>
  What the function does with a value that is neither a list nor a dictionary: a value
  that counts as false is taken for an empty listing, any other is of an unexpected type.
\<close>

lemma handle_versions_scalar:
  "is_scalar v \<Longrightarrow>
   handle_versions tool bucket dry_run v st =
     (Inr (), st\<lparr>out := out st @
        [if truthy v then unexpected_type_msg v else no_files_msg bucket]\<rparr>)"
  by (cases v) (simp_all add: handle_versions_def print_def)

subsection \<open>The empty array on one line\<close>

text \<open>
  An output that is the empty array on one line parses line by line, to the list that
  holds the empty list. That is not an empty listing, and its element is not a record:
  indexing it with \<^verbatim>\<open>'fileName'\<close> raises \<^verbatim>\<open>TypeError\<close>.
\<close>

lemma empty_array_on_one_line:
  "main loads_empty_array (b2_of (''[]'' @ [CHR 0x0A]) []) [''prog'', ''bucket'', ''--dry-run'']
     (start []) =
   (Inl (Uncaught TypeError),
    \<lparr>world = [], calls = [ls_command ''bucket''], out = [dry_run_msg], stdin = []\<rparr>)"
  by code_simp

section \<open>The properties\<close>

subsection \<open>Selection: all but the newest version of each file name\<close>

text \<open>
  Claim C1. For every list \<open>vs\<close> of version records, the first loop builds a dictionary
  \<open>files\<close> without raising, and
  \<^item> the number of deletion candidates is the number of records minus the number of
    distinct file names;
  \<^item> the candidates and the retained records together are exactly the records of the
    listing, each as often as it is listed;
  \<^item> the keys of \<open>files\<close> are the distinct file names, each once;
  \<^item> one record is retained per key, and it is the newest of that name: the one with the
    greatest upload timestamp, the first of them in input order when there are several.

  No group of \<open>files\<close> is empty, since a key is only created together with its first
  record. The number of candidates is the count that a dry run of a listing with at
  least one record reports, after one line for each candidate.
\<close>

theorem keep_newest_per_name:
  "\<exists>files. organize (map JRec vs) [] = Inr files
     \<and> length (candidates files) = length vs - card (fileName ` set vs)
     \<and> mset (map snd (candidates files)) + mset (retained files) = mset vs
     \<and> distinct (map fst files) \<and> set (map fst files) = fileName ` set vs
     \<and> map Some (retained files) = map (newest vs) (map fst files)
     \<and> (\<forall>(k, g) \<in> set files. g \<noteq> [])
     \<and> (vs \<noteq> [] \<longrightarrow>
          handle_versions tool bucket True (JList (map JRec vs)) st =
            (Inr (), st\<lparr>out := out st @ map (\<lambda>(k, v). would_delete_msg k v) (candidates files)
                @ [summary_msg True (length vs - card (fileName ` set vs))]\<rparr>))"
proof (intro exI conjI impI)
  show "organize (map JRec vs) [] = Inr (organized vs)"
    by (rule organize_organized)
  show "length (candidates (organized vs)) = length vs - card (fileName ` set vs)"
    by (rule length_candidates_organized)
  show "mset (map snd (candidates (organized vs))) + mset (retained (organized vs)) = mset vs"
    by (rule mset_candidates_retained_organized)
  show "distinct (map fst (organized vs))"
    by (rule distinct_organized)
  show "set (map fst (organized vs)) = fileName ` set vs"
    by (rule set_fst_organized)
  show "map Some (retained (organized vs)) = map (newest vs) (map fst (organized vs))"
    by (rule retained_newest_organized)
  show "\<forall>(k, g) \<in> set (organized vs). g \<noteq> []"
    by (rule organized_nonempty)
next
  assume "vs \<noteq> []"
  then have "handle_versions tool bucket True (JList (map JRec vs)) st =
               delete_and_summarize tool True (organized vs) st"
    by (rule handle_versions_records)
  then show "handle_versions tool bucket True (JList (map JRec vs)) st =
       (Inr (), st\<lparr>out := out st @ map (\<lambda>(k, v). would_delete_msg k v) (candidates (organized vs))
           @ [summary_msg True (length vs - card (fileName ` set vs))]\<rparr>)"
    by (simp only: delete_and_summarize_dry length_candidates_organized)
qed

text \<open>
  The theorem on a listing of two file names, the second with two versions of equal
  upload timestamp: three candidates out of five records, and the first listed of the two
  equal ones is retained.
\<close>

theorem keep_newest_per_name_witness:
  "organize (map JRec [v100, b1, v300, b2, v200]) [] =
     Inr [(''a.txt'', [v100, v300, v200]), (''b.txt'', [b1, b2])]
   \<and> candidates [(''a.txt'', [v100, v300, v200]), (''b.txt'', [b1, b2])] =
       [(''a.txt'', v200), (''a.txt'', v100), (''b.txt'', b2)]
   \<and> retained [(''a.txt'', [v100, v300, v200]), (''b.txt'', [b1, b2])] = [v300, b1]
   \<and> length (candidates [(''a.txt'', [v100, v300, v200]), (''b.txt'', [b1, b2])]) =
       length [v100, b1, v300, b2, v200] - card (fileName ` set [v100, b1, v300, b2, v200])
   \<and> map Some (retained [(''a.txt'', [v100, v300, v200]), (''b.txt'', [b1, b2])]) =
       map (newest [v100, b1, v300, b2, v200])
         (map fst [(''a.txt'', [v100, v300, v200]), (''b.txt'', [b1, b2])])
   \<and> handle_versions (b2_of [] []) ''bucket'' True
         (JList (map JRec [v100, b1, v300, b2, v200])) (start []) =
       (Inr (),
        \<lparr>world = [], calls = [],
         out = [''Would delete: a.txt (Version: id200)'', ''Would delete: a.txt (Version: id100)'',
                ''Would delete: b.txt (Version: idb2)'',
                CHR 0x0A # ''Total versions that would be deleted: 3''],
         stdin = []\<rparr>)"
proof -
  let ?vs = "[v100, b1, v300, b2, v200]"
  let ?F = "[(''a.txt'', [v100, v300, v200]), (''b.txt'', [b1, b2])]"
  have o: "organize (map JRec ?vs) [] = Inr ?F"
    by (simp add: v100_def v300_def v200_def b1_def b2_def)
  have c: "candidates ?F = [(''a.txt'', v200), (''a.txt'', v100), (''b.txt'', b2)]"
    by (simp add: candidates_def sorted_reverse_def v100_def v300_def v200_def b1_def b2_def)
  have r: "retained ?F = [v300, b1]"
    by (simp add: retained_def sorted_reverse_def v100_def v300_def v200_def b1_def b2_def)
  have ne: "?vs \<noteq> []"
    by simp
  obtain files where f: "organize (map JRec ?vs) [] = Inr files"
    and 1: "length (candidates files) = length ?vs - card (fileName ` set ?vs)"
    and 2: "map Some (retained files) = map (newest ?vs) (map fst files)"
    and 3: "?vs \<noteq> [] \<longrightarrow>
          handle_versions (b2_of [] []) ''bucket'' True (JList (map JRec ?vs)) (start []) =
            (Inr (), (start [])\<lparr>out := out (start []) @
                map (\<lambda>(k, v). would_delete_msg k v) (candidates files)
                @ [summary_msg True (length ?vs - card (fileName ` set ?vs))]\<rparr>)"
    using keep_newest_per_name [of ?vs "b2_of [] []" "''bucket''" "start []"] by blast
  have e: "files = ?F"
    using f o by simp
  have 4: "handle_versions (b2_of [] []) ''bucket'' True (JList (map JRec ?vs)) (start []) =
            (Inr (), (start [])\<lparr>out := out (start []) @
                map (\<lambda>(k, v). would_delete_msg k v) (candidates ?F)
                @ [summary_msg True (length ?vs - card (fileName ` set ?vs))]\<rparr>)"
    using 3 ne unfolding e by (rule mp)
  have "(Inr (), (start [])\<lparr>out := out (start []) @
                map (\<lambda>(k, v). would_delete_msg k v) (candidates ?F)
                @ [summary_msg True (length ?vs - card (fileName ` set ?vs))]\<rparr>) =
       (Inr () :: stop + unit,
        \<lparr>world = [], calls = [],
         out = [''Would delete: a.txt (Version: id200)'', ''Would delete: a.txt (Version: id100)'',
                ''Would delete: b.txt (Version: idb2)'',
                CHR 0x0A # ''Total versions that would be deleted: 3''],
         stdin = []\<rparr>)"
    by code_simp
  with 4 have 5: "handle_versions (b2_of [] []) ''bucket'' True (JList (map JRec ?vs)) (start []) =
       (Inr (),
        \<lparr>world = [], calls = [],
         out = [''Would delete: a.txt (Version: id200)'', ''Would delete: a.txt (Version: id100)'',
                ''Would delete: b.txt (Version: idb2)'',
                CHR 0x0A # ''Total versions that would be deleted: 3''],
         stdin = []\<rparr>)"
    by (rule trans)
  show ?thesis
    using o c r 1 [unfolded e] 2 [unfolded e] 5 by (intro conjI)
qed

subsection \<open>Scenario A: one file, versions uploaded at 100, 300 and 200\<close>

text \<open>
  Claim C2. For a listing of three versions of one file name with the upload timestamps
  100, 300 and 200, in this order, whatever the name and the file ids: the version of 300
  is retained, the candidates are the versions of 200 and of 100, in this order, and the
  summary reports 2, in a dry run and in a live run in which both deletions succeed; in
  the latter the tool is called once for each of the two candidates.
\<close>

theorem scenario_a:
  "organize [JRec (ver f i 100), JRec (ver f j 300), JRec (ver f k 200)] [] =
     Inr [(f, [ver f i 100, ver f j 300, ver f k 200])]
   \<and> retained [(f, [ver f i 100, ver f j 300, ver f k 200])] = [ver f j 300]
   \<and> candidates [(f, [ver f i 100, ver f j 300, ver f k 200])] =
       [(f, ver f k 200), (f, ver f i 100)]
   \<and> handle_versions tool bucket True
         (JList [JRec (ver f i 100), JRec (ver f j 300), JRec (ver f k 200)]) st =
       (Inr (), st\<lparr>out := out st @
          [would_delete_msg f (ver f k 200), would_delete_msg f (ver f i 100),
           summary_msg True 2]\<rparr>)
   \<and> summary_msg True 2 = CHR 0x0A # ''Total versions that would be deleted: 2''
   \<and> ((\<forall>p \<in> set (responses tool [delete_command f (ver f k 200), delete_command f (ver f i 100)]
                    (world st)). returncode p = 0) \<longrightarrow>
       handle_versions tool bucket False
         (JList [JRec (ver f i 100), JRec (ver f j 300), JRec (ver f k 200)]) st =
       (Inr (),
        st\<lparr>world := world_after tool
                      [delete_command f (ver f k 200), delete_command f (ver f i 100)] (world st),
           calls := calls st @ [delete_command f (ver f k 200), delete_command f (ver f i 100)],
           out := out st @
             [deleting_msg f (ver f k 200), deleting_msg f (ver f i 100),
              summary_msg False 2]\<rparr>))
   \<and> summary_msg False 2 = CHR 0x0A # ''Total versions deleted: 2''"
  unfolding scenario_handle
proof (intro conjI impI)
  assume "\<forall>p \<in> set (responses tool [delete_command f (ver f k 200), delete_command f (ver f i 100)]
                    (world st)). returncode p = 0"
  then show "delete_and_summarize tool False [(f, [ver f i 100, ver f j 300, ver f k 200])] st =
       (Inr (),
        st\<lparr>world := world_after tool
                      [delete_command f (ver f k 200), delete_command f (ver f i 100)] (world st),
           calls := calls st @ [delete_command f (ver f k 200), delete_command f (ver f i 100)],
           out := out st @
             [deleting_msg f (ver f k 200), deleting_msg f (ver f i 100),
              summary_msg False 2]\<rparr>)"
    by (rule scenario_live)
qed (rule scenario_organize scenario_retained scenario_candidates scenario_dry summary_2)+

text \<open>The live run on a bucket tool that deletes what it is asked to.\<close>

theorem scenario_a_witness:
  "map returncode (responses (b2_of listing_a [])
      [delete_command ''a.txt'' v200, delete_command ''a.txt'' v100] []) = [0, 0]
   \<and> handle_versions (b2_of listing_a []) ''bucket'' False
         (JList [JRec v100, JRec v300, JRec v200]) (start []) =
       (Inr (),
        \<lparr>world = [''id200'', ''id100''],
         calls = [[''b2'', ''delete-file-version'', ''a.txt'', ''id200''],
                  [''b2'', ''delete-file-version'', ''a.txt'', ''id100'']],
         out = [''Deleting: a.txt (Version: id200)'', ''Deleting: a.txt (Version: id100)'',
                CHR 0x0A # ''Total versions deleted: 2''],
         stdin = []\<rparr>)"
proof -
  have v: "v100 = ver ''a.txt'' ''id100'' 100" "v300 = ver ''a.txt'' ''id300'' 300"
    "v200 = ver ''a.txt'' ''id200'' 200"
    by (simp_all add: v100_def v300_def v200_def ver_def)
  have r: "map returncode (responses (b2_of listing_a [])
      [delete_command ''a.txt'' v200, delete_command ''a.txt'' v100] []) = [0, 0]"
    by code_simp
  then have a: "\<forall>p \<in> set (responses (b2_of listing_a [])
      [delete_command ''a.txt'' (ver ''a.txt'' ''id200'' 200),
       delete_command ''a.txt'' (ver ''a.txt'' ''id100'' 100)] (world (start []))).
        returncode p = 0"
    by (simp add: v start_def)
  have w: "world_after (b2_of listing_a [])
      [delete_command ''a.txt'' (ver ''a.txt'' ''id200'' 200),
       delete_command ''a.txt'' (ver ''a.txt'' ''id100'' 100)] (world (start [])) =
        [''id200'', ''id100'']"
    by code_simp
  have "handle_versions (b2_of listing_a []) ''bucket'' False
         (JList [JRec (ver ''a.txt'' ''id100'' 100), JRec (ver ''a.txt'' ''id300'' 300),
                 JRec (ver ''a.txt'' ''id200'' 200)]) (start []) =
       (Inr (),
        (start [])\<lparr>world := [''id200'', ''id100''],
           calls := calls (start []) @
             [delete_command ''a.txt'' (ver ''a.txt'' ''id200'' 200),
              delete_command ''a.txt'' (ver ''a.txt'' ''id100'' 100)],
           out := out (start []) @
             [deleting_msg ''a.txt'' (ver ''a.txt'' ''id200'' 200),
              deleting_msg ''a.txt'' (ver ''a.txt'' ''id100'' 100),
              summary_msg False 2]\<rparr>)"
    using scenario_a [of "''a.txt''" "''id100''" "''id300''" "''id200''" "b2_of listing_a []"
                         "''bucket''" "start []"] a
    by (simp only: w)
  then show ?thesis
    using r by (simp add: v start_def delete_command_def deleting_msg_def summary_2 ver_def)
qed

subsection \<open>Dry run and live run\<close>

text \<open>
  Claim C3, amended. For every dictionary \<open>files\<close>, every tool and every state:
  \<^item> a dry run never calls the tool: it leaves the world and the list of calls as they
    are, prints one ``would delete'' line per candidate and reports their number;
  \<^item> a live run in which every deletion exits with 0 calls the tool with the delete
    command of each candidate, once each and in their order, and reports their number.

  A live run in which a deletion fails stops there, so that the later candidates get no
  call: for every run, as the claim is stated, it does not hold.
\<close>

theorem dry_run_never_deletes:
  "delete_and_summarize tool True files st =
     (Inr (), st\<lparr>out := out st @ map (\<lambda>(k, v). would_delete_msg k v) (candidates files)
                            @ [summary_msg True (length (candidates files))]\<rparr>)
   \<and> calls (snd (delete_and_summarize tool True files st)) = calls st
   \<and> world (snd (delete_and_summarize tool True files st)) = world st
   \<and> ((\<forall>p \<in> set (responses tool (map (\<lambda>(k, v). delete_command k v) (candidates files))
                    (world st)). returncode p = 0) \<longrightarrow>
       delete_and_summarize tool False files st =
         (Inr (),
          st\<lparr>world := world_after tool (map (\<lambda>(k, v). delete_command k v) (candidates files))
                        (world st),
             calls := calls st @ map (\<lambda>(k, v). delete_command k v) (candidates files),
             out := out st @ map (\<lambda>(k, v). deleting_msg k v) (candidates files)
                      @ [summary_msg False (length (candidates files))]\<rparr>))"
proof (intro conjI impI)
  show "delete_and_summarize tool True files st =
     (Inr (), st\<lparr>out := out st @ map (\<lambda>(k, v). would_delete_msg k v) (candidates files)
                            @ [summary_msg True (length (candidates files))]\<rparr>)"
    by (rule delete_and_summarize_dry)
  show "calls (snd (delete_and_summarize tool True files st)) = calls st"
    by (simp add: delete_and_summarize_dry)
  show "world (snd (delete_and_summarize tool True files st)) = world st"
    by (simp add: delete_and_summarize_dry)
next
  assume "\<forall>p \<in> set (responses tool (map (\<lambda>(k, v). delete_command k v) (candidates files))
                    (world st)). returncode p = 0"
  then show "delete_and_summarize tool False files st =
         (Inr (),
          st\<lparr>world := world_after tool (map (\<lambda>(k, v). delete_command k v) (candidates files))
                        (world st),
             calls := calls st @ map (\<lambda>(k, v). delete_command k v) (candidates files),
             out := out st @ map (\<lambda>(k, v). deleting_msg k v) (candidates files)
                      @ [summary_msg False (length (candidates files))]\<rparr>)"
    by (rule delete_and_summarize_live_ok)
qed

text \<open>
  Two files with three candidates, on a tool that deletes what it is asked to: the dry
  run changes nothing and makes no call, the live run makes the three calls.
\<close>

theorem dry_run_never_deletes_witness:
  "candidates [(''a.txt'', [v100, v300, v200]), (''b.txt'', [b1, b2])] =
     [(''a.txt'', v200), (''a.txt'', v100), (''b.txt'', b2)]
   \<and> map returncode (responses (b2_of [] [])
         [delete_command ''a.txt'' v200, delete_command ''a.txt'' v100,
          delete_command ''b.txt'' b2] []) = [0, 0, 0]
   \<and> delete_and_summarize (b2_of [] []) True
         [(''a.txt'', [v100, v300, v200]), (''b.txt'', [b1, b2])] (start []) =
       (Inr (),
        \<lparr>world = [], calls = [],
         out = [would_delete_msg ''a.txt'' v200, would_delete_msg ''a.txt'' v100,
                would_delete_msg ''b.txt'' b2, summary_msg True 3],
         stdin = []\<rparr>)
   \<and> delete_and_summarize (b2_of [] []) False
         [(''a.txt'', [v100, v300, v200]), (''b.txt'', [b1, b2])] (start []) =
       (Inr (),
        \<lparr>world = [''id200'', ''id100'', ''idb2''],
         calls = [delete_command ''a.txt'' v200, delete_command ''a.txt'' v100,
                  delete_command ''b.txt'' b2],
         out = [deleting_msg ''a.txt'' v200, deleting_msg ''a.txt'' v100,
                deleting_msg ''b.txt'' b2, summary_msg False 3],
         stdin = []\<rparr>)"
proof -
  let ?F = "[(''a.txt'', [v100, v300, v200]), (''b.txt'', [b1, b2])]"
  have c: "candidates ?F = [(''a.txt'', v200), (''a.txt'', v100), (''b.txt'', b2)]"
    by (simp add: candidates_def sorted_reverse_def v100_def v300_def v200_def b1_def b2_def)
  have n: "length (candidates ?F) = 3"
    by (simp add: c)
  have r: "map returncode (responses (b2_of [] [])
         [delete_command ''a.txt'' v200, delete_command ''a.txt'' v100,
          delete_command ''b.txt'' b2] []) = [0, 0, 0]"
    by code_simp
  have w: "world_after (b2_of [] [])
         [delete_command ''a.txt'' v200, delete_command ''a.txt'' v100,
          delete_command ''b.txt'' b2] [] = [''id200'', ''id100'', ''idb2'']"
    by code_simp
  have a: "\<forall>p \<in> set (responses (b2_of [] []) (map (\<lambda>(k, v). delete_command k v) (candidates ?F))
                    (world (start []))). returncode p = 0"
    using r by (simp add: c start_def)
  have w': "world_after (b2_of [] []) (map (\<lambda>(k, v). delete_command k v) (candidates ?F))
              (world (start [])) = [''id200'', ''id100'', ''idb2'']"
    using w by (simp add: c start_def)
  note t = dry_run_never_deletes [of "b2_of [] []" ?F "start []"]
  have d: "delete_and_summarize (b2_of [] []) True ?F (start []) =
       (Inr (),
        \<lparr>world = [], calls = [],
         out = [would_delete_msg ''a.txt'' v200, would_delete_msg ''a.txt'' v100,
                would_delete_msg ''b.txt'' b2, summary_msg True 3],
         stdin = []\<rparr>)"
    unfolding t [THEN conjunct1] n by (simp add: c start_def)
  have l: "delete_and_summarize (b2_of [] []) False ?F (start []) =
       (Inr (),
        \<lparr>world = [''id200'', ''id100'', ''idb2''],
         calls = [delete_command ''a.txt'' v200, delete_command ''a.txt'' v100,
                  delete_command ''b.txt'' b2],
         out = [deleting_msg ''a.txt'' v200, deleting_msg ''a.txt'' v100,
                deleting_msg ''b.txt'' b2, summary_msg False 3],
         stdin = []\<rparr>)"
    unfolding t [THEN conjunct2, THEN conjunct2, THEN conjunct2, THEN mp, OF a] n w'
    by (simp add: c start_def)
  show ?thesis
    by (intro conjI) (rule c r d l)+
qed

text \<open>
  The claim as stated fails on a live run whose first deletion fails. The listing has the
  three versions of scenario A, hence the two candidates of 200 and of 100; the tool
  refuses to delete the version of 200, the script exits with 1, and the tool is never
  called for the version of 100.
\<close>

theorem live_run_counterexample:
  "candidates [(''a.txt'', [v100, v300, v200])] = [(''a.txt'', v200), (''a.txt'', v100)]
   \<and> main loads_a (b2_of listing_a [''id200'']) [''prog'', ''bucket''] (start [''y'']) =
       (Inl (SysExit 1),
        \<lparr>world = [],
         calls = [ls_command ''bucket'', delete_command ''a.txt'' v200],
         out = [warning_msg, deleting_msg ''a.txt'' v200,
                ''Error executing command: b2 delete-file-version a.txt id200'',
                ''Error output: ERROR: file version not found''],
         stdin = []\<rparr>)
   \<and> delete_command ''a.txt'' v100 \<notin>
       set (calls (snd (main loads_a (b2_of listing_a [''id200'']) [''prog'', ''bucket'']
                          (start [''y'']))))"
  by code_simp

subsection \<open>A failing deletion stops the run\<close>

text \<open>
  Claim C4. Let a live run list the version records \<open>vs\<close>, and let the candidates be
  \<open>pre\<close>, then the version \<open>v\<close> of the file name \<open>k\<close>, then \<open>post\<close>. If the deletions of
  \<open>pre\<close> all exit with 0 and the deletion of \<open>v\<close> exits with another code, then the run
  stops with \<^verbatim>\<open>sys.exit(1)\<close>, the process exits with 1, the last two lines printed name
  the command and show the standard error of the failed call, and the calls of the tool
  after the listing are the deletions of \<open>pre\<close> and of \<open>v\<close>: none for \<open>post\<close>.
\<close>

theorem failed_delete_stops_run:
  assumes "get_file_versions loads tool bucket st0 = (Inr (JList (map JRec vs)), st)"
      and "candidates (organized vs) = pre @ (k, v) # post"
      and "\<forall>p \<in> set (responses tool (map (\<lambda>(k, v). delete_command k v) pre) (world st)).
             returncode p = 0"
      and "tool (delete_command k v)
             (world_after tool (map (\<lambda>(k, v). delete_command k v) pre) (world st)) = (p, w)"
      and "returncode p \<noteq> 0"
  shows "delete_old_versions loads tool bucket False st0 =
           (Inl (SysExit 1),
            st\<lparr>world := w,
               calls := calls st @ map (\<lambda>(k, v). delete_command k v) pre @ [delete_command k v],
               out := out st @ map (\<lambda>(k, v). deleting_msg k v) pre @
                 [deleting_msg k v,
                  ''Error executing command: '' @ join '' '' (delete_command k v),
                  ''Error output: '' @ stderr p]\<rparr>)
         \<and> exit_code (fst (delete_old_versions loads tool bucket False st0)) = 1
         \<and> calls st = calls st0 @ [ls_command bucket]"
proof -
  have "vs \<noteq> []"
    using assms(2) by (auto simp: organized_Nil candidates_def)
  then have h: "delete_old_versions loads tool bucket False st0 =
                  delete_and_summarize tool False (organized vs) st"
    by (simp add: delete_old_versions_listing [OF assms(1)] handle_versions_records)
  have f: "returncode (fst (tool (delete_command k v)
             (world_after tool (map (\<lambda>(k, v). delete_command k v) pre) (world st)))) \<noteq> 0"
    by (simp add: assms(4) assms(5))
  have e: "delete_old_versions loads tool bucket False st0 =
           (Inl (SysExit 1),
            st\<lparr>world := w,
               calls := calls st @ map (\<lambda>(k, v). delete_command k v) pre @ [delete_command k v],
               out := out st @ map (\<lambda>(k, v). deleting_msg k v) pre @
                 [deleting_msg k v,
                  ''Error executing command: '' @ join '' '' (delete_command k v),
                  ''Error output: '' @ stderr p]\<rparr>)"
    unfolding h delete_and_summarize_live_fail [OF assms(2) assms(3) refl f]
    by (simp add: assms(4) error_msgs_def)
  show ?thesis
    unfolding e using get_file_versions_calls [OF assms(1)] by simp
qed

text \<open>
  Scenario F: six versions of one file, hence five candidates, the versions of 5, 4, 3, 2
  and 1; the deletion of the third, the version of 3, fails. The tool is called for the
  listing and for the versions of 5, 4 and 3, and never for those of 2 and 1.
\<close>

theorem failed_delete_stops_run_witness:
  "get_file_versions (loads_of six) (b2_of (listing_of six) [''id3'']) ''bucket'' (start []) =
     (Inr (JList (map JRec six)),
      \<lparr>world = [], calls = [ls_command ''bucket''], out = [], stdin = []\<rparr>)
   \<and> map (fileId \<circ> snd) (candidates (organized six)) = [''id5'', ''id4'', ''id3'', ''id2'', ''id1'']
   \<and> delete_old_versions (loads_of six) (b2_of (listing_of six) [''id3'']) ''bucket'' False
         (start []) =
       (Inl (SysExit 1),
        \<lparr>world = [''id5'', ''id4''],
         calls = [ls_command ''bucket'',
                  [''b2'', ''delete-file-version'', ''a.txt'', ''id5''],
                  [''b2'', ''delete-file-version'', ''a.txt'', ''id4''],
                  [''b2'', ''delete-file-version'', ''a.txt'', ''id3'']],
         out = [''Deleting: a.txt (Version: id5)'', ''Deleting: a.txt (Version: id4)'',
                ''Deleting: a.txt (Version: id3)'',
                ''Error executing command: b2 delete-file-version a.txt id3'',
                ''Error output: ERROR: file version not found''],
         stdin = []\<rparr>)"
proof -
  let ?tool = "b2_of (listing_of six) [''id3'']"
  let ?st = "\<lparr>world = [], calls = [ls_command ''bucket''], out = [], stdin = []\<rparr> :: string list state"
  let ?v = "\<lambda>n. \<lparr>fileName = ''a.txt'', fileId = ''id'' @ str_nat n, uploadTimestamp = int n\<rparr>"
  let ?pre = "[(''a.txt'', ?v 5), (''a.txt'', ?v 4)]"
  let ?post = "[(''a.txt'', ?v 2), (''a.txt'', ?v 1)]"
  let ?p = "\<lparr>returncode = 1, stdout = [], stderr = ''ERROR: file version not found''\<rparr>"
  have g: "get_file_versions (loads_of six) ?tool ''bucket'' (start []) = (Inr (JList (map JRec six)), ?st)"
    by code_simp
  have c: "candidates (organized six) = ?pre @ (''a.txt'', ?v 3) # ?post"
    by code_simp
  have i: "map (fileId \<circ> snd) (candidates (organized six)) = [''id5'', ''id4'', ''id3'', ''id2'', ''id1'']"
    by code_simp
  have a: "\<forall>p \<in> set (responses ?tool (map (\<lambda>(k, v). delete_command k v) ?pre) (world ?st)).
             returncode p = 0"
    by code_simp
  have t: "?tool (delete_command ''a.txt'' (?v 3))
             (world_after ?tool (map (\<lambda>(k, v). delete_command k v) ?pre) (world ?st)) =
           (?p, [''id5'', ''id4''])"
    by code_simp
  have n: "returncode ?p \<noteq> 0"
    by simp
  have "delete_old_versions (loads_of six) ?tool ''bucket'' False (start []) =
           (Inl (SysExit 1),
            ?st\<lparr>world := [''id5'', ''id4''],
               calls := calls ?st @ map (\<lambda>(k, v). delete_command k v) ?pre
                          @ [delete_command ''a.txt'' (?v 3)],
               out := out ?st @ map (\<lambda>(k, v). deleting_msg k v) ?pre @
                 [deleting_msg ''a.txt'' (?v 3),
                  ''Error executing command: '' @ join '' '' (delete_command ''a.txt'' (?v 3)),
                  ''Error output: '' @ stderr ?p]\<rparr>)"
    using failed_delete_stops_run [OF g c a t n] by (rule conjunct1)
  also have "\<dots> = (Inl (SysExit 1),
        \<lparr>world = [''id5'', ''id4''],
         calls = [ls_command ''bucket'',
                  [''b2'', ''delete-file-version'', ''a.txt'', ''id5''],
                  [''b2'', ''delete-file-version'', ''a.txt'', ''id4''],
                  [''b2'', ''delete-file-version'', ''a.txt'', ''id3'']],
         out = [''Deleting: a.txt (Version: id5)'', ''Deleting: a.txt (Version: id4)'',
                ''Deleting: a.txt (Version: id3)'',
                ''Error executing command: b2 delete-file-version a.txt id3'',
                ''Error output: ERROR: file version not found''],
         stdin = []\<rparr>)"
    by code_simp
  finally show ?thesis
    using g i by simp
qed

subsection \<open>A listing that is one bare object\<close>

text \<open>
  Claim C5, amended. When the listing does not parse line by line and the whole output
  parses to one object, \<^verbatim>\<open>get_file_versions\<close> returns that object as it is, not a list
  that holds it. It is its caller, \<^verbatim>\<open>delete_old_versions\<close>, that makes the dictionary
  with the single group of that one record, so that the run goes on as it does for the
  list of that one record: no candidate, and a summary of 0.
\<close>

theorem bare_object_wrapped_by_caller:
  assumes "run_command tool (ls_command bucket) st = (Inr output, st1)"
      and "loads_lines loads (splitlines output) = Inl e"
      and "loads output = Inr (JRec file)"
  shows "get_file_versions loads tool bucket st =
           (Inr (JRec file), st1\<lparr>out := out st1 @ [decode_error_msg e, attempting_msg]\<rparr>)
         \<and> delete_old_versions loads tool bucket dry_run st =
             handle_versions tool bucket dry_run (JList [JRec file])
               (st1\<lparr>out := out st1 @ [decode_error_msg e, attempting_msg]\<rparr>)
         \<and> delete_old_versions loads tool bucket dry_run st =
             (Inr (), st1\<lparr>out := out st1 @
                [decode_error_msg e, attempting_msg, summary_msg dry_run 0]\<rparr>)"
proof -
  let ?st2 = "st1\<lparr>out := out st1 @ [decode_error_msg e, attempting_msg]\<rparr>"
  have g: "get_file_versions loads tool bucket st = (Inr (JRec file), ?st2)"
    by (rule get_file_versions_fallback [OF assms])
  have d: "delete_old_versions loads tool bucket dry_run st =
             delete_and_summarize tool dry_run [(fileName file, [file])] ?st2"
    by (simp add: delete_old_versions_listing [OF g] handle_versions_def)
  have h: "handle_versions tool bucket dry_run (JList [JRec file]) ?st2 =
             delete_and_summarize tool dry_run [(fileName file, [file])] ?st2"
    by (simp add: handle_versions_def)
  have c: "candidates [(fileName file, [file])] = []"
    by (simp add: candidates_def sorted_reverse_def)
  have s: "delete_and_summarize tool dry_run [(fileName file, [file])] ?st2 =
             (Inr (), st1\<lparr>out := out st1 @
                [decode_error_msg e, attempting_msg, summary_msg dry_run 0]\<rparr>)"
    by (cases dry_run)
       (simp_all add: delete_and_summarize_def delete_files_flat c print_def)
  show ?thesis
    by (simp only: g d h s)
qed

text \<open>
  The listing is one object printed over five lines. Its first line, the opening brace,
  is not JSON, so the whole output is parsed, to the object, and the dry run reports 0.
\<close>

theorem bare_object_wrapped_by_caller_witness:
  "run_command (b2_of listing_obj []) (ls_command ''bucket'') (start []) =
     (Inr listing_obj, \<lparr>world = [], calls = [ls_command ''bucket''], out = [], stdin = []\<rparr>)
   \<and> loads_lines loads_obj (splitlines listing_obj) =
       Inl ''Expecting property name enclosed in double quotes: line 1 column 2 (char 1)''
   \<and> loads_obj listing_obj = Inr (JRec v100)
   \<and> delete_old_versions loads_obj (b2_of listing_obj []) ''bucket'' True (start []) =
       (Inr (),
        \<lparr>world = [], calls = [ls_command ''bucket''],
         out = [''Error decoding JSON: Expecting property name enclosed in double quotes: line 1 column 2 (char 1)'',
                ''Attempting to parse output as a single JSON object...'',
                CHR 0x0A # ''Total versions that would be deleted: 0''],
         stdin = []\<rparr>)"
proof -
  let ?st1 = "\<lparr>world = [], calls = [ls_command ''bucket''], out = [], stdin = []\<rparr> :: string list state"
  let ?e = "''Expecting property name enclosed in double quotes: line 1 column 2 (char 1)''"
  have r: "run_command (b2_of listing_obj []) (ls_command ''bucket'') (start []) = (Inr listing_obj, ?st1)"
    by code_simp
  have l: "loads_lines loads_obj (splitlines listing_obj) = Inl ?e"
    by code_simp
  have w: "loads_obj listing_obj = Inr (JRec v100)"
    by code_simp
  have "delete_old_versions loads_obj (b2_of listing_obj []) ''bucket'' True (start []) =
          (Inr (), ?st1\<lparr>out := out ?st1 @ [decode_error_msg ?e, attempting_msg, summary_msg True 0]\<rparr>)"
    using bare_object_wrapped_by_caller [OF r l w, of True] by (rule conjunct2 [THEN conjunct2])
  also have "\<dots> = (Inr (),
        \<lparr>world = [], calls = [ls_command ''bucket''],
         out = [''Error decoding JSON: Expecting property name enclosed in double quotes: line 1 column 2 (char 1)'',
                ''Attempting to parse output as a single JSON object...'',
                CHR 0x0A # ''Total versions that would be deleted: 0''],
         stdin = []\<rparr>)"
    by code_simp
  finally show ?thesis
    using r l w by simp
qed

text \<open>
  On the same listing, the value that \<^verbatim>\<open>get_file_versions\<close> returns is the bare object
  and not the list of that object.
\<close>

theorem lister_returns_bare_object:
  "fst (get_file_versions loads_obj (b2_of listing_obj []) ''bucket'' (start [])) = Inr (JRec v100)
   \<and> fst (get_file_versions loads_obj (b2_of listing_obj []) ''bucket'' (start [])) \<noteq>
       Inr (JList [JRec v100])"
  by code_simp

subsection \<open>The sort is stable\<close>

text \<open>
  Claim C6. In every group, the records with one and the same upload timestamp stand in
  the sorted list in the order in which they stand in the group, and the sorted list is
  in descending order of upload timestamp.
\<close>

theorem sorted_versions_stable:
  "filter (\<lambda>v. uploadTimestamp v = t) (sorted_reverse uploadTimestamp versions) =
     filter (\<lambda>v. uploadTimestamp v = t) versions
   \<and> sorted_wrt (\<lambda>a b. uploadTimestamp a \<ge> uploadTimestamp b)
       (sorted_reverse uploadTimestamp versions)"
  by (simp add: sorted_reverse_stable sorted_reverse_desc)

theorem sorted_versions_stable_witness:
  "sorted_reverse uploadTimestamp [b1, v100, b2, v300] = [v300, v100, b1, b2]
   \<and> filter (\<lambda>v. uploadTimestamp v = 50) (sorted_reverse uploadTimestamp [b1, v100, b2, v300]) =
       [b1, b2]"
proof -
  have "filter (\<lambda>v. uploadTimestamp v = 50) [b1, v100, b2, v300] = [b1, b2]"
    by (simp add: v100_def v300_def b1_def b2_def)
  moreover have "sorted_reverse uploadTimestamp [b1, v100, b2, v300] = [v300, v100, b1, b2]"
    by (simp add: sorted_reverse_def v100_def v300_def b1_def b2_def)
  ultimately show ?thesis
    using sorted_versions_stable [of 50 "[b1, v100, b2, v300]"] by simp
qed

subsection \<open>The confirmation\<close>

text \<open>
  Claim C7, amended. In live mode (two or three arguments, none of them
  \<^verbatim>\<open>--dry-run\<close>) the script prints the warning and reads one line. The line is put in
  lower case before it is compared with \<^verbatim>\<open>y\<close>, so the answers that let the run go on are
  \<^verbatim>\<open>y\<close> and \<^verbatim>\<open>Y\<close>. For every other line the script prints that the operation is
  cancelled and exits with 0; the tool has not been called and the world is as it was.
\<close>

theorem confirmation_gate:
  assumes "2 \<le> length argv" and "length argv \<le> 3" and "''--dry-run'' \<notin> set argv"
      and "stdin st = line # rest"
  shows "(line \<noteq> ''y'' \<and> line \<noteq> ''Y'' \<longrightarrow>
            main loads tool argv st =
              (Inl (SysExit 0),
               st\<lparr>out := out st @ [warning_msg, ''Operation cancelled.''], stdin := rest\<rparr>)
            \<and> exit_code (fst (main loads tool argv st)) = 0
            \<and> calls (snd (main loads tool argv st)) = calls st
            \<and> world (snd (main loads tool argv st)) = world st)
         \<and> (line = ''y'' \<or> line = ''Y'' \<longrightarrow>
            main loads tool argv st =
              delete_old_versions loads tool (argv ! 1) False
                (st\<lparr>out := out st @ [warning_msg], stdin := rest\<rparr>))"
proof -
  have m: "main loads tool argv st =
     (if line = ''y'' \<or> line = ''Y''
      then delete_old_versions loads tool (argv ! 1) False
             (st\<lparr>out := out st @ [warning_msg], stdin := rest\<rparr>)
      else (Inl (SysExit 0), st\<lparr>out := out st @ [warning_msg, cancelled_msg], stdin := rest\<rparr>))"
    unfolding main_live [OF assms(1) assms(2) assms(3)]
    by (rule confirm_and_delete_line [OF assms(4)])
  show ?thesis
    unfolding m by (simp add: cancelled_msg_def)
qed

text \<open>The answers \<^verbatim>\<open>n\<close> and \<^verbatim>\<open>y\<close> on the listing of scenario A.\<close>

theorem confirmation_gate_witness:
  "main loads_a (b2_of listing_a []) [''prog'', ''bucket''] (start [''n'']) =
     (Inl (SysExit 0),
      \<lparr>world = [], calls = [],
       out = [''WARNING: This will actually delete file versions. Are you sure? (y/n)'',
              ''Operation cancelled.''],
       stdin = []\<rparr>)
   \<and> exit_code (fst (main loads_a (b2_of listing_a []) [''prog'', ''bucket''] (start [''n'']))) = 0
   \<and> main loads_a (b2_of listing_a []) [''prog'', ''bucket''] (start [''y'']) =
       delete_old_versions loads_a (b2_of listing_a []) ''bucket'' False
         \<lparr>world = [], calls = [],
          out = [''WARNING: This will actually delete file versions. Are you sure? (y/n)''],
          stdin = []\<rparr>"
proof -
  have a: "2 \<le> length [''prog'', ''bucket'']" "length [''prog'', ''bucket''] \<le> 3"
    "''--dry-run'' \<notin> set [''prog'', ''bucket'']"
    by simp_all
  have n: "stdin (start [''n'']) = ''n'' # []" and y: "stdin (start [''y'']) = ''y'' # []"
    by (simp_all add: start_def)
  from confirmation_gate [OF a n, of loads_a "b2_of listing_a []"]
  have 1: "main loads_a (b2_of listing_a []) [''prog'', ''bucket''] (start [''n'']) =
     (Inl (SysExit 0),
      (start [''n''])\<lparr>out := out (start [''n'']) @ [warning_msg, ''Operation cancelled.''],
                      stdin := []\<rparr>)"
    and 2: "exit_code (fst (main loads_a (b2_of listing_a []) [''prog'', ''bucket''] (start [''n'']))) = 0"
    by simp_all
  from confirmation_gate [OF a y, of loads_a "b2_of listing_a []"]
  have 3: "main loads_a (b2_of listing_a []) [''prog'', ''bucket''] (start [''y'']) =
       delete_old_versions loads_a (b2_of listing_a []) ([''prog'', ''bucket''] ! 1) False
         ((start [''y''])\<lparr>out := out (start [''y'']) @ [warning_msg], stdin := []\<rparr>)"
    by simp
  show ?thesis
    unfolding 1 3 using 2 by (simp add: start_def warning_msg_def 1)
qed

text \<open>
  The claim as stated fails on the answer \<^verbatim>\<open>Y\<close>, which is not the string \<^verbatim>\<open>y\<close> and
  lets the run go on: the listing is made and both candidates are deleted.
\<close>

theorem capital_y_counterexample:
  "''Y'' \<noteq> ''y''
   \<and> main loads_a (b2_of listing_a []) [''prog'', ''bucket''] (start [''Y'']) =
       (Inr (),
        \<lparr>world = [''id200'', ''id100''],
         calls = [ls_command ''bucket'', delete_command ''a.txt'' v200,
                  delete_command ''a.txt'' v100],
         out = [warning_msg, deleting_msg ''a.txt'' v200, deleting_msg ''a.txt'' v100,
                summary_msg False 2],
         stdin = []\<rparr>)"
  by code_simp

subsection \<open>Scenario C: an empty listing\<close>

text \<open>
  Claim C8. When the listing returns the empty list of records, in a dry run or a live
  one, the function prints the line that no files were found and returns: nothing else is
  printed after the listing, thus no line for a candidate and no summary, the only call of
  the tool is the listing, and the process exits with 0, since the call of
  \<^verbatim>\<open>delete_old_versions\<close> is the last statement of the script.
\<close>

theorem empty_listing_no_files:
  assumes "get_file_versions loads tool bucket st = (Inr (JList []), st1)"
  shows "delete_old_versions loads tool bucket dry_run st =
           (Inr (), st1\<lparr>out := out st1 @ [''No files found in bucket: '' @ bucket]\<rparr>)
         \<and> calls st1 = calls st @ [ls_command bucket]
         \<and> exit_code (fst (delete_old_versions loads tool bucket dry_run st)) = 0"
proof -
  have e: "delete_old_versions loads tool bucket dry_run st =
             (Inr (), st1\<lparr>out := out st1 @ [''No files found in bucket: '' @ bucket]\<rparr>)"
    by (simp add: delete_old_versions_listing [OF assms] handle_versions_def no_files_msg_def
                  print_def)
  show ?thesis
    unfolding e using get_file_versions_calls [OF assms] by simp
qed

text \<open>The tool prints nothing for an empty bucket; a live run, confirmed, from the entry point.\<close>

theorem empty_listing_no_files_witness:
  "get_file_versions (loads_of []) (b2_of [] []) ''bucket'' (start []) =
     (Inr (JList []), \<lparr>world = [], calls = [ls_command ''bucket''], out = [], stdin = []\<rparr>)
   \<and> delete_old_versions (loads_of []) (b2_of [] []) ''bucket'' False (start []) =
       (Inr (),
        \<lparr>world = [], calls = [ls_command ''bucket''],
         out = [''No files found in bucket: bucket''], stdin = []\<rparr>)
   \<and> exit_code (fst (delete_old_versions (loads_of []) (b2_of [] []) ''bucket'' False (start []))) = 0
   \<and> main (loads_of []) (b2_of [] []) [''prog'', ''bucket''] (start [''y'']) =
       (Inr (),
        \<lparr>world = [], calls = [ls_command ''bucket''],
         out = [warning_msg, ''No files found in bucket: bucket''], stdin = []\<rparr>)"
proof -
  let ?st1 = "\<lparr>world = [], calls = [ls_command ''bucket''], out = [], stdin = []\<rparr> :: string list state"
  have g: "get_file_versions (loads_of []) (b2_of [] []) ''bucket'' (start []) = (Inr (JList []), ?st1)"
    by code_simp
  have m: "main (loads_of []) (b2_of [] []) [''prog'', ''bucket''] (start [''y'']) =
       (Inr (),
        \<lparr>world = [], calls = [ls_command ''bucket''],
         out = [warning_msg, ''No files found in bucket: bucket''], stdin = []\<rparr>)"
    by code_simp
  from empty_listing_no_files [OF g, of False]
  have "delete_old_versions (loads_of []) (b2_of [] []) ''bucket'' False (start []) =
          (Inr (), ?st1\<lparr>out := out ?st1 @ [''No files found in bucket: '' @ ''bucket'']\<rparr>)"
    and "exit_code (fst (delete_old_versions (loads_of []) (b2_of [] []) ''bucket'' False (start []))) = 0"
    by simp_all
  then show ?thesis
    using g m by simp
qed

subsection \<open>The arguments\<close>

text \<open>
  Claim C9, amended. Here \<open>argv\<close> is \<^verbatim>\<open>sys.argv\<close>, the name of the program first.
  \<^item> Only the number of arguments is checked: the script prints the usage line and exits
    with 1 exactly when \<open>argv\<close> has fewer than two or more than three elements.
    Otherwise it is a dry run when \<^verbatim>\<open>--dry-run\<close> is anywhere in \<open>argv\<close>, a live run when
    not, on the bucket named by the first argument.
  \<^item> A sole argument \<^verbatim>\<open>--dry-run\<close> is accepted: a dry run on the bucket of that name.
  \<^item> A second argument that is not \<^verbatim>\<open>--dry-run\<close> is ignored: the run is what it is
    without it. That is a live run on the first argument when neither the first argument
    nor the name of the program is \<^verbatim>\<open>--dry-run\<close>, and a dry run when one of them is.
\<close>

theorem only_the_count_is_checked:
  "(length argv < 2 \<or> 3 < length argv \<longrightarrow>
      main loads tool argv st = (Inl (SysExit 1), st\<lparr>out := out st @ [usage_msg]\<rparr>))
   \<and> (length argv = 2 \<or> length argv = 3 \<longrightarrow>
      main loads tool argv st =
        (if ''--dry-run'' \<in> set argv
         then delete_old_versions loads tool (argv ! 1) True (st\<lparr>out := out st @ [dry_run_msg]\<rparr>)
         else confirm_and_delete loads tool (argv ! 1) st))
   \<and> main loads tool [prog, ''--dry-run''] st =
       delete_old_versions loads tool ''--dry-run'' True (st\<lparr>out := out st @ [dry_run_msg]\<rparr>)
   \<and> (extra \<noteq> ''--dry-run'' \<longrightarrow>
      main loads tool [prog, bucket, extra] st = main loads tool [prog, bucket] st)
   \<and> (''--dry-run'' \<notin> {prog, bucket, extra} \<longrightarrow>
      main loads tool [prog, bucket, extra] st = confirm_and_delete loads tool bucket st)
   \<and> (''--dry-run'' \<in> {prog, bucket} \<longrightarrow>
      main loads tool [prog, bucket, extra] st =
        delete_old_versions loads tool bucket True (st\<lparr>out := out st @ [dry_run_msg]\<rparr>))"
  by (auto simp: main_def print_def)

text \<open>
  No argument: the usage line and exit code 1. A bucket and a second argument that is not
  the flag, with the answer \<^verbatim>\<open>n\<close>: the live run of the bucket alone, cancelled. The
  flag alone: a dry run on the bucket of that name.
\<close>

theorem only_the_count_is_checked_witness:
  "main loads_a (b2_of listing_a []) [''prog''] (start []) =
     (Inl (SysExit 1),
      \<lparr>world = [], calls = [],
       out = [''Usage: python3 delete.py <bucket_name> [--dry-run]''], stdin = []\<rparr>)
   \<and> main loads_a (b2_of listing_a []) [''prog'', ''bucket'', ''extra''] (start [''n'']) =
       main loads_a (b2_of listing_a []) [''prog'', ''bucket''] (start [''n''])
   \<and> main loads_a (b2_of listing_a []) [''prog'', ''bucket'', ''extra''] (start [''n'']) =
       (Inl (SysExit 0),
        \<lparr>world = [], calls = [], out = [warning_msg, cancelled_msg], stdin = []\<rparr>)
   \<and> main loads_a (b2_of listing_a []) [''prog'', ''--dry-run''] (start []) =
       (Inr (),
        \<lparr>world = [], calls = [ls_command ''--dry-run''],
         out = [dry_run_msg, would_delete_msg ''a.txt'' v200, would_delete_msg ''a.txt'' v100,
                summary_msg True 2],
         stdin = []\<rparr>)"
proof -
  note t = only_the_count_is_checked [of _ loads_a "b2_of listing_a []" _ "''prog''" "''extra''" "''bucket''"]
  have 1: "main loads_a (b2_of listing_a []) [''prog''] (start []) =
     (Inl (SysExit 1), (start [])\<lparr>out := out (start []) @ [usage_msg]\<rparr>)"
    using t [of "[''prog'']" "start []", THEN conjunct1] by simp
  have 2: "main loads_a (b2_of listing_a []) [''prog'', ''bucket'', ''extra''] (start [''n'']) =
       main loads_a (b2_of listing_a []) [''prog'', ''bucket''] (start [''n''])"
    using t [of "[]" "start [''n'']", THEN conjunct2, THEN conjunct2, THEN conjunct2,
             THEN conjunct1]
    by simp
  have 3: "main loads_a (b2_of listing_a []) [''prog'', ''bucket'', ''extra''] (start [''n'']) =
       confirm_and_delete loads_a (b2_of listing_a []) ''bucket'' (start [''n''])"
    using t [of "[]" "start [''n'']", THEN conjunct2, THEN conjunct2, THEN conjunct2,
             THEN conjunct2, THEN conjunct1]
    by simp
  have 4: "confirm_and_delete loads_a (b2_of listing_a []) ''bucket'' (start [''n'']) =
       (Inl (SysExit 0),
        \<lparr>world = [], calls = [], out = [warning_msg, cancelled_msg], stdin = []\<rparr>)"
    by code_simp
  have 5: "main loads_a (b2_of listing_a []) [''prog'', ''bucket'', ''extra''] (start [''n'']) =
       (Inl (SysExit 0),
        \<lparr>world = [], calls = [], out = [warning_msg, cancelled_msg], stdin = []\<rparr>)"
    by (simp only: 3 4)
  have 6: "main loads_a (b2_of listing_a []) [''prog''] (start []) =
     (Inl (SysExit 1),
      \<lparr>world = [], calls = [],
       out = [''Usage: python3 delete.py <bucket_name> [--dry-run]''], stdin = []\<rparr>)"
    unfolding 1 by (simp add: start_def usage_msg_def)
  have 7: "main loads_a (b2_of listing_a []) [''prog'', ''--dry-run''] (start []) =
       delete_old_versions loads_a (b2_of listing_a []) ''--dry-run'' True
         ((start [])\<lparr>out := out (start []) @ [dry_run_msg]\<rparr>)"
    by (rule t [of "[]" "start []", THEN conjunct2, THEN conjunct2, THEN conjunct1])
  have 8: "delete_old_versions loads_a (b2_of listing_a []) ''--dry-run'' True
         ((start [])\<lparr>out := out (start []) @ [dry_run_msg]\<rparr>) =
       (Inr (),
        \<lparr>world = [], calls = [ls_command ''--dry-run''],
         out = [dry_run_msg, would_delete_msg ''a.txt'' v200, would_delete_msg ''a.txt'' v100,
                summary_msg True 2],
         stdin = []\<rparr>)"
    by code_simp
  show ?thesis
    by (intro conjI) (rule 6 2 5 7 [unfolded 8])+
qed

text \<open>
  The claim as stated fails when the first argument is the flag: the second argument is
  not \<^verbatim>\<open>--dry-run\<close>, and the run is a dry run all the same. It prints the notice of a dry
  run, reads no confirmation, and deletes nothing, where a live run on the same input
  would stop at the confirmation, standard input being empty.
\<close>

theorem flag_as_first_argument_counterexample:
  "''extra'' \<noteq> ''--dry-run''
   \<and> main loads_a (b2_of listing_a []) [''prog'', ''--dry-run'', ''extra''] (start []) =
       (Inr (),
        \<lparr>world = [],
         calls = [ls_command ''--dry-run''],
         out = [dry_run_msg, would_delete_msg ''a.txt'' v200, would_delete_msg ''a.txt'' v100,
                summary_msg True 2],
         stdin = []\<rparr>)
   \<and> confirm_and_delete loads_a (b2_of listing_a []) ''--dry-run'' (start []) =
       (Inl (Uncaught EOFError),
        \<lparr>world = [], calls = [], out = [warning_msg], stdin = []\<rparr>)"
  by code_simp

subsection \<open>A listing that is one scalar\<close>

text \<open>
  Claim C10. Let the listing not parse line by line, and let the whole output parse to a
  value that is neither a list nor an object. Then, in both modes, the script prints the
  two lines of the failed first parse and the line on the unexpected data type, and
  returns: the process exits with 0, the listing is the only call of the tool, and no
  summary is printed.

  The first hypothesis is the property of \<^verbatim>\<open>json.loads\<close> stated with
  \<open>false_scalars_on_one_line\<close>. It excludes what \<^verbatim>\<open>json.loads\<close> cannot do: a value such as
  \<^verbatim>\<open>0\<close> or the empty string from an output that does not parse line by line. The
  scalars left are true in a condition, so that the test \<^verbatim>\<open>if not file_versions\<close> lets
  them pass to the test of the type.
\<close>

theorem scalar_listing_unexpected_type:
  assumes "false_scalars_on_one_line loads"
      and "run_command tool (ls_command bucket) st = (Inr output, st1)"
      and "loads_lines loads (splitlines output) = Inl e"
      and "loads output = Inr v"
      and "is_scalar v"
  shows "delete_old_versions loads tool bucket dry_run st =
           (Inr (), st1\<lparr>out := out st1 @
              [decode_error_msg e, attempting_msg,
               ''Unexpected data type for file_versions: '' @ type_repr v]\<rparr>)
         \<and> exit_code (fst (delete_old_versions loads tool bucket dry_run st)) = 0
         \<and> calls st1 = calls st @ [ls_command bucket]"
proof -
  have t: "truthy v"
  proof (rule ccontr)
    assume "\<not> truthy v"
    with assms(1) assms(4) assms(5) have "loads_lines loads (splitlines output) = Inr [v]"
      unfolding false_scalars_on_one_line_def by blast
    with assms(3) show False
      by simp
  qed
  let ?st2 = "st1\<lparr>out := out st1 @ [decode_error_msg e, attempting_msg]\<rparr>"
  have g: "get_file_versions loads tool bucket st = (Inr v, ?st2)"
    by (rule get_file_versions_fallback [OF assms(2) assms(3) assms(4)])
  have h: "handle_versions tool bucket dry_run v ?st2 =
             (Inr (), st1\<lparr>out := out st1 @
                [decode_error_msg e, attempting_msg,
                 ''Unexpected data type for file_versions: '' @ type_repr v]\<rparr>)"
    using t assms(5) by (simp add: handle_versions_scalar unexpected_type_msg_def)
  have d: "delete_old_versions loads tool bucket dry_run st =
             (Inr (), st1\<lparr>out := out st1 @
                [decode_error_msg e, attempting_msg,
                 ''Unexpected data type for file_versions: '' @ type_repr v]\<rparr>)"
    by (simp only: delete_old_versions_listing [OF g] h)
  have c: "calls st1 = calls st @ [ls_command bucket]"
    by (rule run_command_calls [OF assms(2)])
  show ?thesis
    unfolding d using c by simp
qed

text \<open>
  The output is one JSON string with the character next line inside. For
  \<^verbatim>\<open>splitlines\<close> that character is a line boundary, and the first of the two lines, an
  unterminated string, is not JSON; the whole output is the string.
\<close>

theorem scalar_listing_unexpected_type_witness:
  "false_scalars_on_one_line loads_str
   \<and> run_command (b2_of listing_str []) (ls_command ''bucket'') (start []) =
       (Inr listing_str, \<lparr>world = [], calls = [ls_command ''bucket''], out = [], stdin = []\<rparr>)
   \<and> loads_lines loads_str (splitlines listing_str) =
       Inl ''Unterminated string starting at: line 1 column 1 (char 0)''
   \<and> loads_str listing_str = Inr (JStr (''a'' @ [CHR 0x85] @ ''b''))
   \<and> delete_old_versions loads_str (b2_of listing_str []) ''bucket'' False (start []) =
       (Inr (),
        \<lparr>world = [], calls = [ls_command ''bucket''],
         out = [''Error decoding JSON: Unterminated string starting at: line 1 column 1 (char 0)'',
                ''Attempting to parse output as a single JSON object...'',
                ''Unexpected data type for file_versions: <class '' @ [CHR 0x27] @ ''str'' @
                  [CHR 0x27] @ ''>''],
         stdin = []\<rparr>)
   \<and> exit_code (fst (delete_old_versions loads_str (b2_of listing_str []) ''bucket'' False
                       (start []))) = 0"
proof -
  let ?st1 = "\<lparr>world = [], calls = [ls_command ''bucket''], out = [], stdin = []\<rparr> :: string list state"
  let ?e = "''Unterminated string starting at: line 1 column 1 (char 0)''"
  let ?v = "JStr (''a'' @ [CHR 0x85] @ ''b'')"
  have f: "false_scalars_on_one_line loads_str"
    by (auto simp: false_scalars_on_one_line_def loads_str_def loads_table_def split: if_splits)
  have r: "run_command (b2_of listing_str []) (ls_command ''bucket'') (start []) =
             (Inr listing_str, ?st1)"
    by code_simp
  have l: "loads_lines loads_str (splitlines listing_str) = Inl ?e"
    by code_simp
  have w: "loads_str listing_str = Inr ?v"
    by code_simp
  have s: "is_scalar ?v"
    by simp
  note t = scalar_listing_unexpected_type [OF f r l w s, of False]
  have "delete_old_versions loads_str (b2_of listing_str []) ''bucket'' False (start []) =
          (Inr (), ?st1\<lparr>out := out ?st1 @
              [decode_error_msg ?e, attempting_msg,
               ''Unexpected data type for file_versions: '' @ type_repr ?v]\<rparr>)"
    by (rule t [THEN conjunct1])
  also have "\<dots> = (Inr (),
        \<lparr>world = [], calls = [ls_command ''bucket''],
         out = [''Error decoding JSON: Unterminated string starting at: line 1 column 1 (char 0)'',
                ''Attempting to parse output as a single JSON object...'',
                ''Unexpected data type for file_versions: <class '' @ [CHR 0x27] @ ''str'' @
                  [CHR 0x27] @ ''>''],
         stdin = []\<rparr>)"
    by code_simp
  finally have d: "delete_old_versions loads_str (b2_of listing_str []) ''bucket'' False (start []) =
       (Inr (),
        \<lparr>world = [], calls = [ls_command ''bucket''],
         out = [''Error decoding JSON: Unterminated string starting at: line 1 column 1 (char 0)'',
                ''Attempting to parse output as a single JSON object...'',
                ''Unexpected data type for file_versions: <class '' @ [CHR 0x27] @ ''str'' @
                  [CHR 0x27] @ ''>''],
         stdin = []\<rparr>)" .
  show ?thesis
    by (intro conjI) (rule f r l w d t [THEN conjunct2, THEN conjunct1])+
qed

end
